theory Spec2Isabelle
  imports
    Complex_Main
    "HOL-Library.Char_ord"
    "HOL-Library.List_Lexorder"
    "HOL-Library.Product_Lexorder"
    "HOL-Library.Multiset"
begin

section \<open>Data model\<close>

text \<open>
  A parsed \<open>Date\<close> cell: (year, month, day, second of the day). The lexicographic order of
  the tuple is the chronological order; \<open>dt_year\<close> is \<open>.dt.year\<close>.
\<close>

type_synonym datetime = "int \<times> nat \<times> nat \<times> nat"

definition dt_year :: "datetime \<Rightarrow> int" where
  "dt_year d = fst d"

text \<open>
  One row of the frame after lines 11-12 of \<open>main.py\<close> (\<open>read_csv\<close> and
  \<open>to_datetime(errors='coerce')\<close>). A missing cell (NaN, NaT) is \<open>None\<close>.
\<close>

record raw_row =
  Location :: "string option"
  Date :: "datetime option"
  Organisation :: "string option"
  Mission_Status :: "string option"

text \<open>One row of the frame \<open>load_data\<close> returns: the two derived columns are added.\<close>

record mission = raw_row +
  Country :: "string option"
  Country_Code :: string

section \<open>The loader\<close>

text \<open>
  \<open>s.split(', ')\<close>: the text is cut at every occurrence of the two characters, scanning
  from the left; the result is never empty.
\<close>

fun str_split :: "string \<Rightarrow> string list" where
  "str_split [] = [[]]"
| "str_split [a] = [[a]]"
| "str_split (a # b # cs) =
     (if a = CHR '','' \<and> b = CHR '' '' then [] # str_split cs
      else (case str_split (b # cs) of
              [] \<Rightarrow> [[a]]
            | w # ws \<Rightarrow> (a # w) # ws))"

text \<open>\<open>.str[-1]\<close>: the last element of the list, NaN for an empty list.\<close>

definition str_get_last :: "string list \<Rightarrow> string option" where
  "str_get_last ws = (if ws = [] then None else Some (last ws))"

text \<open>The dictionary \<open>update\<close> of \<open>load_data\<close>, in the order of the source.\<close>

definition update :: "(string \<times> string) list" where
  "update =
    [(''Russia'', ''Russian Federation''),
     (''New Mexico'', ''USA''),
     (''Yellow Sea'', ''China''),
     (''Shahrud Missile Test Site'', ''Iran, Islamic Republic of''),
     (''Pacific Missile Range Facility'', ''USA''),
     (''Barents Sea'', ''Russian Federation''),
     (''Gran Canaria'', ''USA''),
     (''Marshall Islands'', ''USA''),
     (''Iran'', ''Iran, Islamic Republic of''),
     (''North Korea'', ''Korea, Democratic People's Republic of''),
     (''South Korea'', ''Korea, Republic of''),
     (''United Kingdom'', ''United Kingdom of Great Britain and Northern Ireland''),
     (''Pacific Ocean'', ''USA'')]"

text \<open>
  \<open>Series.replace(d)\<close> on one cell: a value that is a key of the dictionary is replaced
  by its entry, every other value (NaN too) is kept.
\<close>

definition replace :: "(string \<times> string) list \<Rightarrow> string option \<Rightarrow> string option" where
  "replace d v =
     (case v of
        None \<Rightarrow> None
      | Some x \<Rightarrow> (case map_of d x of None \<Rightarrow> Some x | Some y \<Rightarrow> Some y))"

text \<open>Lines 15 and 31: the \<open>Country\<close> cell of a row, from its \<open>Location\<close> cell.\<close>

definition country_of_location :: "string option \<Rightarrow> string option" where
  "country_of_location loc =
     replace update (case loc of None \<Rightarrow> None | Some s \<Rightarrow> str_get_last (str_split s))"

text \<open>
  Line 32 on one row. \<open>countries.get\<close> belongs to the package \<open>iso3166\<close>, which is not
  part of the repository: it is the parameter \<open>get\<close>, which answers \<open>Inr\<close> of the alpha-3
  code of the entry it finds and \<open>Inl\<close> of the exception it raises when it finds none.
\<close>

definition with_country :: "(string option \<Rightarrow> 'e + string) \<Rightarrow> raw_row \<Rightarrow> 'e + mission" where
  "with_country get r =
     (let c = country_of_location (Location r) in
      case get c of
        Inl e \<Rightarrow> Inl e
      | Inr code \<Rightarrow>
          Inr \<lparr>Location = Location r, Date = Date r, Organisation = Organisation r,
               Mission_Status = Mission_Status r, Country = c, Country_Code = code\<rparr>)"

text \<open>
  \<open>load_data\<close>: \<open>Series.apply\<close> visits the rows in order, and the first exception ends the
  call; nothing catches it.
\<close>

fun load_data :: "(string option \<Rightarrow> 'e + string) \<Rightarrow> raw_row list \<Rightarrow> 'e + mission list" where
  "load_data get [] = Inr []"
| "load_data get (r # rs) =
     (case with_country get r of
        Inl e \<Rightarrow> Inl e
      | Inr m \<Rightarrow> (case load_data get rs of Inl e \<Rightarrow> Inl e | Inr ms \<Rightarrow> Inr (m # ms)))"

section \<open>Frame operations\<close>

text \<open>The cells of a column that are not missing, in row order.\<close>

fun present :: "'a option list \<Rightarrow> 'a list" where
  "present [] = []"
| "present (None # xs) = present xs"
| "present (Some x # xs) = x # present xs"

text \<open>
  \<open>groupby(keys).size()\<close>: one entry per distinct key, in ascending key order, with the
  number of rows that have the key. Rows whose key is missing belong to no group.
\<close>

definition groupby_size :: "('k::linorder) option list \<Rightarrow> ('k \<times> nat) list" where
  "groupby_size ks =
     (let vs = present ks in map (\<lambda>k. (k, count_list vs k)) (sort (remdups vs)))"

text \<open>The key of a row in a groupby on two columns: missing when either cell is.\<close>

definition key2 :: "'a option \<Rightarrow> 'b option \<Rightarrow> ('a \<times> 'b) option" where
  "key2 a b = (case a of None \<Rightarrow> None | Some x \<Rightarrow> (case b of None \<Rightarrow> None | Some y \<Rightarrow> Some (x, y)))"

text \<open>\<open>df['Date'].dt.year\<close> on one row.\<close>

definition Year :: "'a mission_scheme \<Rightarrow> int option" where
  "Year r = map_option dt_year (Date r)"

text \<open>
  \<open>pd.to_datetime(df['Date'], errors='coerce')\<close> in the branches: the column has been
  parsed by the loader, and parsing a parsed cell returns it.
\<close>

definition to_datetime_coerce :: "datetime option \<Rightarrow> datetime option" where
  "to_datetime_coerce d = d"

definition set_Date :: "mission list \<Rightarrow> mission list" where
  "set_Date df = map (\<lambda>r. r\<lparr>Date := to_datetime_coerce (Date r)\<rparr>) df"

text \<open>\<open>df.dropna(subset=['Date'])\<close>.\<close>

definition dropna_Date :: "mission list \<Rightarrow> mission list" where
  "dropna_Date df = filter (\<lambda>r. Date r \<noteq> None) df"

text \<open>The first occurrences of the values of a list, in order.\<close>

definition unique :: "'a list \<Rightarrow> 'a list" where
  "unique xs = rev (remdups (rev xs))"

text \<open>
  \<open>Series.sort_values(ascending=False)\<close> on a series of counts is the parameter \<open>srt\<close> of the
  operations that call it: pandas sorts with an unstable algorithm, so the order of equal
  counts is not fixed. \<open>sorts_descending\<close> is what every such sort does, and
  \<open>sort_values_desc\<close> is one of them.
\<close>

definition sorts_descending :: "((string \<times> nat) list \<Rightarrow> (string \<times> nat) list) \<Rightarrow> bool" where
  "sorts_descending srt =
     (\<forall>xs. mset (srt xs) = mset xs \<and> sorted_wrt (\<lambda>a b. snd b \<le> snd a) (srt xs))"

definition sort_values_desc :: "(string \<times> nat) list \<Rightarrow> (string \<times> nat) list" where
  "sort_values_desc xs = rev (sort_key snd xs)"

text \<open>
  \<open>Series.value_counts()\<close>: the count of every value that is not missing, sorted by
  count, largest first.
\<close>

definition value_counts ::
  "((string \<times> nat) list \<Rightarrow> (string \<times> nat) list) \<Rightarrow> string option list \<Rightarrow> (string \<times> nat) list" where
  "value_counts srt col =
     (let vs = present col in srt (map (\<lambda>k. (k, count_list vs k)) (unique vs)))"

text \<open>
  \<open>Series.rolling(w).mean()\<close>: no value before \<open>w\<close> observations are in the window
  (\<open>min_periods\<close> is the window size), then the mean of the last \<open>w\<close> values. Positions
  count from 0.
\<close>

definition rolling_mean :: "nat \<Rightarrow> rat list \<Rightarrow> rat option list" where
  "rolling_mean w xs =
     map (\<lambda>i. if i + 1 < w then None
              else Some (sum_list (take w (drop (i + 1 - w) xs)) / of_nat w))
         [0..<length xs]"

section \<open>The seven analyses\<close>

subsection \<open>Number of Launches by Organisation (lines 54-63)\<close>

definition no_of_launches_per_company ::
  "((string \<times> nat) list \<Rightarrow> (string \<times> nat) list) \<Rightarrow> mission list \<Rightarrow> (string \<times> nat) list" where
  "no_of_launches_per_company srt df = value_counts srt (map Organisation df)"

subsection \<open>Number of Launches by Country (lines 65-77)\<close>

definition launches_by_country :: "mission list \<Rightarrow> ((string \<times> string) \<times> nat) list" where
  "launches_by_country df =
     groupby_size (map (\<lambda>r. key2 (Country r) (Some (Country_Code r))) df)"

subsection \<open>Launches Over Time (lines 79-109)\<close>

definition launches_per_year :: "mission list \<Rightarrow> (int \<times> nat) list" where
  "launches_per_year df = groupby_size (map Year (dropna_Date (set_Date df)))"

definition launches_month_on_month :: "mission list \<Rightarrow> (datetime \<times> nat) list" where
  "launches_month_on_month df = groupby_size (map Date (dropna_Date (set_Date df)))"

definition Rolling_Average :: "mission list \<Rightarrow> rat option list" where
  "Rolling_Average df =
     rolling_mean 30 (map (\<lambda>p. of_nat (snd p)) (launches_month_on_month df))"

subsection \<open>Mission Success and Failures (lines 111-139)\<close>

definition successful_missions :: "mission list \<Rightarrow> nat" where
  "successful_missions df =
     length (filter (\<lambda>r. Mission_Status r = Some ''Success'') (dropna_Date (set_Date df)))"

definition failed_missions :: "mission list \<Rightarrow> nat" where
  "failed_missions df =
     length (filter (\<lambda>r. Mission_Status r = Some ''Failure'') (dropna_Date (set_Date df)))"

definition mission_status_year_on_year :: "mission list \<Rightarrow> ((int \<times> string) \<times> nat) list" where
  "mission_status_year_on_year df =
     groupby_size (map (\<lambda>r. key2 (Year r) (Mission_Status r)) (dropna_Date (set_Date df)))"

definition mission_failures_year_on_year :: "mission list \<Rightarrow> ((int \<times> string) \<times> nat) list" where
  "mission_failures_year_on_year df =
     filter (\<lambda>p. snd (fst p) = ''Failure'') (mission_status_year_on_year df)"

subsection \<open>Cold War Space Race (lines 142-177)\<close>

definition cold_war_update :: "(string \<times> string) list" where
  "cold_war_update = [(''Russian Federation'', ''USSR''), (''Kazakhstan'', ''USSR'')]"

text \<open>Line 155: \<open>fillna('Unknown')\<close> on the \<open>Country\<close> column.\<close>

definition fillna_Country :: "mission list \<Rightarrow> mission list" where
  "fillna_Country df =
     map (\<lambda>r. r\<lparr>Country := Some (case Country r of None \<Rightarrow> ''Unknown'' | Some c \<Rightarrow> c)\<rparr>) df"

text \<open>The mask \<open>df['Date'].dt.year <= 1991\<close>: false where the year is missing.\<close>

definition until_1991 :: "'a mission_scheme \<Rightarrow> bool" where
  "until_1991 r = (case Year r of None \<Rightarrow> False | Some y \<Rightarrow> y \<le> 1991)"

text \<open>
  Line 158: the rows of the mask get the recoded \<open>Country\<close>; the assignment aligns the
  two sides on the row labels, which are unique, so each row gets its own value.
\<close>

definition recode_cold_war :: "mission list \<Rightarrow> mission list" where
  "recode_cold_war df =
     map (\<lambda>r. if until_1991 r then r\<lparr>Country := replace cold_war_update (Country r)\<rparr> else r) df"

text \<open>The frame \<open>df_data\<close> after line 158.\<close>

definition cold_war_frame :: "mission list \<Rightarrow> mission list" where
  "cold_war_frame df = recode_cold_war (fillna_Country (dropna_Date (set_Date df)))"

definition cold_war :: "mission list \<Rightarrow> mission list" where
  "cold_war df = filter until_1991 (cold_war_frame df)"

definition cold_war_launches :: "mission list \<Rightarrow> ((int \<times> string) \<times> nat) list" where
  "cold_war_launches df = groupby_size (map (\<lambda>r. key2 (Year r) (Country r)) (cold_war df))"

definition cold_war_launches_USA_USSR :: "mission list \<Rightarrow> ((int \<times> string) \<times> nat) list" where
  "cold_war_launches_USA_USSR df =
     filter (\<lambda>p. snd (fst p) \<in> set [''USA'', ''USSR'']) (cold_war_launches df)"

subsection \<open>Top Organization per Year (lines 180-201)\<close>

definition launches_by_year_org :: "mission list \<Rightarrow> ((int \<times> string) \<times> nat) list" where
  "launches_by_year_org df =
     groupby_size (map (\<lambda>r. key2 (Year r) (Organisation r)) (dropna_Date (set_Date df)))"

text \<open>\<open>groupby('Organisation')['Launch Count'].sum()\<close> on the table of line 188.\<close>

definition launch_count_sum :: "((int \<times> string) \<times> nat) list \<Rightarrow> (string \<times> nat) list" where
  "launch_count_sum t =
     map (\<lambda>org. (org, sum_list (map snd (filter (\<lambda>p. snd (fst p) = org) t))))
         (sort (remdups (map (\<lambda>p. snd (fst p)) t)))"

definition top10_organizations ::
  "((string \<times> nat) list \<Rightarrow> (string \<times> nat) list) \<Rightarrow> mission list \<Rightarrow> (string \<times> nat) list" where
  "top10_organizations srt df = take 10 (srt (launch_count_sum (launches_by_year_org df)))"

text \<open>
  \<open>left.merge(right, on='Organisation', how='inner')\<close> with a one-column right frame: every
  left row once per right row of the same organisation, in the order of the left rows.
\<close>

definition merge_inner ::
  "((int \<times> string) \<times> nat) list \<Rightarrow> string list \<Rightarrow> ((int \<times> string) \<times> nat) list" where
  "merge_inner left right =
     concat (map (\<lambda>p. map (\<lambda>_. p) (filter (\<lambda>org. org = snd (fst p)) right)) left)"

definition launches_top10_organizations ::
  "((string \<times> nat) list \<Rightarrow> (string \<times> nat) list) \<Rightarrow> mission list \<Rightarrow> ((int \<times> string) \<times> nat) list" where
  "launches_top10_organizations srt df =
     merge_inner (launches_by_year_org df) (map fst (top10_organizations srt df))"

subsection \<open>Mission Failures Over Time (lines 204-220)\<close>

definition total_mission_status_year_on_year :: "mission list \<Rightarrow> (int \<times> nat) list" where
  "total_mission_status_year_on_year df = groupby_size (map Year df)"

definition failures_year_on_year :: "mission list \<Rightarrow> (int \<times> nat) list" where
  "failures_year_on_year df =
     groupby_size (map Year (filter (\<lambda>r. Mission_Status r = Some ''Failure'') df))"

text \<open>
  Lines 209-210. Both tables have the labels 0, 1, 2, ... after \<open>reset_index\<close>, and the
  division of the two columns pairs the cells that have the same label. The result has
  the rows (Year, Failures, Percentage); a label the divisor lacks gives no value, and so
  does a zero divisor (inf or NaN in pandas).
\<close>

definition failures_percentage :: "mission list \<Rightarrow> (int \<times> nat \<times> rat option) list" where
  "failures_percentage df =
     (let total = total_mission_status_year_on_year df;
          fails = failures_year_on_year df
      in map (\<lambda>i. (fst (fails ! i), snd (fails ! i),
                    if i < length total \<and> snd (total ! i) \<noteq> 0
                    then Some (of_nat (snd (fails ! i)) / of_nat (snd (total ! i)) * 100)
                    else None))
             [0..<length fails])"

section \<open>What a run shows\<close>

text \<open>
  The figures of the seven branches, each with the table it is drawn from, and the calls
  that put something on the page: \<open>st.write\<close> of a text, \<open>st.write\<close> of a text that
  ends with a formatted number, and \<open>st.plotly_chart\<close> or \<open>st.pyplot\<close> of a figure.
\<close>

text \<open>
  The bar figure of lines 60-62: the rows it is drawn from, and the order of the categories
  of its x axis. \<open>px.bar\<close> leaves that order at plotly's default, the order in which the
  categories occur in the rows; line 62 sets it to \<open>total ascending\<close>, by which plotly
  puts the categories in ascending order of the sum of their values.
\<close>

datatype categoryorder = Trace | Total_Ascending

record bar_figure =
  bars :: "(string \<times> nat) list"
  xaxis_categoryorder :: categoryorder

definition px_bar :: "(string \<times> nat) list \<Rightarrow> bar_figure" where
  "px_bar t = \<lparr>bars = t, xaxis_categoryorder = Trace\<rparr>"

definition update_layout_xaxis :: "categoryorder \<Rightarrow> bar_figure \<Rightarrow> bar_figure" where
  "update_layout_xaxis c fig = fig\<lparr>xaxis_categoryorder := c\<rparr>"

text \<open>The categories of the rows, in the order in which they occur, each with its total.\<close>

definition category_totals :: "(string \<times> nat) list \<Rightarrow> (string \<times> nat) list" where
  "category_totals t =
     map (\<lambda>c. (c, sum_list (map snd (filter (\<lambda>p. fst p = c) t)))) (unique (map fst t))"

text \<open>
  The sort behind \<open>total ascending\<close> is the parameter \<open>asc\<close> of the reading of a figure:
  plotly does not fix the order of categories with equal totals. \<open>sorts_ascending\<close> is what
  every such sort does, and \<open>sort_total_asc\<close> is one of them.
\<close>

definition sorts_ascending :: "((string \<times> nat) list \<Rightarrow> (string \<times> nat) list) \<Rightarrow> bool" where
  "sorts_ascending asc =
     (\<forall>xs. mset (asc xs) = mset xs \<and> sorted_wrt (\<lambda>a b. snd a \<le> snd b) (asc xs))"

definition sort_total_asc :: "(string \<times> nat) list \<Rightarrow> (string \<times> nat) list" where
  "sort_total_asc xs = sort_key snd xs"

text \<open>The bars of a figure as the page shows them, from left to right.\<close>

definition xaxis_categories ::
  "((string \<times> nat) list \<Rightarrow> (string \<times> nat) list) \<Rightarrow> bar_figure \<Rightarrow> (string \<times> nat) list" where
  "xaxis_categories asc fig =
     (case xaxis_categoryorder fig of
        Trace \<Rightarrow> category_totals (bars fig)
      | Total_Ascending \<Rightarrow> asc (category_totals (bars fig)))"

text \<open>Lines 60-62: the figure of the launches by organisation.\<close>

definition launches_by_organisation_figure ::
  "((string \<times> nat) list \<Rightarrow> (string \<times> nat) list) \<Rightarrow> mission list \<Rightarrow> bar_figure" where
  "launches_by_organisation_figure srt df =
     update_layout_xaxis Total_Ascending (px_bar (no_of_launches_per_company srt df))"

datatype chart =
    Bar bar_figure
  | Choropleth "((string \<times> string) \<times> nat) list"
  | Plot_Years "(int \<times> nat) list"
  | Line_Rolling "(datetime \<times> nat) list" "rat option list"
  | Plot_Failures "((int \<times> string) \<times> nat) list"
  | Pie "((int \<times> string) \<times> nat) list"
  | Bar_Year_Org "((int \<times> string) \<times> nat) list"
  | Plot_Percentage "(int \<times> nat \<times> rat option) list"

datatype event = Write string | Write_Count string nat | Show_Chart chart

text \<open>Lines 169-177, on the frame the loader returned.\<close>

definition cold_war_view :: "mission list \<Rightarrow> event list" where
  "cold_war_view df =
     [Write ''### Cold War Space Race: USA vs USSR''] @
     (if cold_war_launches_USA_USSR df = []
      then [Write ''No data available for USA and USSR launches during the Cold War.'']
      else [Show_Chart (Pie (cold_war_launches_USA_USSR df))])"

section \<open>The session\<close>

text \<open>The seven entries of the select box, in the order of \<open>analysis_options\<close>.\<close>

datatype analysis =
    Launches_by_Organisation
  | Launches_by_Country
  | Launches_Over_Time
  | Mission_Success_and_Failures
  | Cold_War_Space_Race
  | Top_Organization_per_Year
  | Mission_Failures_Over_Time

text \<open>
  What a branch puts on the page, as a function of the frame \<open>load_data\<close> returned.
\<close>

fun view ::
  "((string \<times> nat) list \<Rightarrow> (string \<times> nat) list) \<Rightarrow> analysis \<Rightarrow> mission list \<Rightarrow> event list" where
  "view srt Launches_by_Organisation df =
     [Write ''### Number of Launches by Organisation'',
      Show_Chart (Bar (launches_by_organisation_figure srt df))]"
| "view srt Launches_by_Country df =
     [Write ''### Launches by Country (Choropleth Map)'',
      Show_Chart (Choropleth (launches_by_country df))]"
| "view srt Launches_Over_Time df =
     [Write ''### Launches Over Time (Yearly)'',
      Show_Chart (Plot_Years (launches_per_year df)),
      Write ''### Launches Over Time (Monthly)'',
      Show_Chart (Line_Rolling (launches_month_on_month df) (Rolling_Average df))]"
| "view srt Mission_Success_and_Failures df =
     [Write_Count ''### Number of Successful Missions: '' (successful_missions df),
      Write_Count ''### Number of Failed Missions: '' (failed_missions df),
      Write ''### Mission Failures Year-on-Year'',
      Show_Chart (Plot_Failures (mission_failures_year_on_year df))]"
| "view srt Cold_War_Space_Race df = cold_war_view df"
| "view srt Top_Organization_per_Year df =
     [Write ''### Top 10 Organizations by Number of Launches Over Time'',
      Show_Chart (Bar_Year_Org (launches_top10_organizations srt df))]"
| "view srt Mission_Failures_Over_Time df =
     [Write ''### Percentage of Mission Failures Over Time'',
      Show_Chart (Plot_Percentage (failures_percentage df))]"

text \<open>
  The objects of a session: every frame that a name of the script or the cache refers to
  has an address, its position in \<open>heap\<close>. \<open>cache\<close> is the entry that \<open>st.cache_data\<close>
  keeps for \<open>load_data\<close>, the address of the frame of the first call. A statement that
  assigns to a column or to \<open>.loc\<close> changes the frame at an address (\<open>modify\<close>); a
  statement that builds a frame, as \<open>dropna\<close> does, puts it at a new address (\<open>alloc\<close>).
  The addresses of a run come from \<open>alloc\<close> and from the cache; \<open>frame\<close> reads the empty
  frame at any other address.
\<close>

record session =
  heap :: "mission list list"
  cache :: "nat option"

definition new_session :: session where
  "new_session = \<lparr>heap = [], cache = None\<rparr>"

definition frame :: "session \<Rightarrow> nat \<Rightarrow> mission list" where
  "frame s a = (if a < length (heap s) then heap s ! a else [])"

definition alloc :: "mission list \<Rightarrow> session \<Rightarrow> nat \<times> session" where
  "alloc df s = (length (heap s), s\<lparr>heap := heap s @ [df]\<rparr>)"

definition modify :: "nat \<Rightarrow> (mission list \<Rightarrow> mission list) \<Rightarrow> session \<Rightarrow> session" where
  "modify a f s = s\<lparr>heap := (heap s)[a := f (frame s a)]\<rparr>"

definition cached_table :: "session \<Rightarrow> mission list option" where
  "cached_table s = map_option (frame s) (cache s)"

text \<open>
  \<open>df_data = load_data()\<close> under \<open>@st.cache_data\<close> (lines 9-10 and 36): the first call
  that returns stores the frame, a call that raises stores nothing, and a later call runs
  no line of \<open>load_data\<close>. Streamlit's \<open>cache_data\<close> gives every caller a copy of the stored
  frame (\<open>copies\<close> is true); with \<open>copies\<close> false the caller gets the stored frame itself.
\<close>

definition load_data_cached ::
  "bool \<Rightarrow> (string option \<Rightarrow> 'e + string) \<Rightarrow> raw_row list \<Rightarrow> session \<Rightarrow> 'e + nat \<times> session" where
  "load_data_cached copies get csv s =
     (case cache s of
        Some c \<Rightarrow> Inr (if copies then alloc (frame s c) s else (c, s))
      | None \<Rightarrow>
          (case load_data get csv of
             Inl e \<Rightarrow> Inl e
           | Inr df \<Rightarrow>
               (let (c, s1) = alloc df s;
                    s2 = s1\<lparr>cache := Some c\<rparr>
                in Inr (if copies then alloc df s2 else (c, s2)))))"

text \<open>
  The branch of the selected analysis (lines 54-220), with \<open>df_data\<close> at the address \<open>a\<close>.
  The tables a branch computes are new frames that no later statement changes; they are
  written as values.
\<close>

fun run_branch ::
  "((string \<times> nat) list \<Rightarrow> (string \<times> nat) list) \<Rightarrow> analysis \<Rightarrow> nat \<Rightarrow> session
     \<Rightarrow> event list \<times> session" where
  "run_branch srt Launches_by_Organisation a s =
     ([Write ''### Number of Launches by Organisation'',
       Show_Chart (Bar (update_layout_xaxis Total_Ascending
         (px_bar (value_counts srt (map Organisation (frame s a))))))], s)"
| "run_branch srt Launches_by_Country a s =
     ([Write ''### Launches by Country (Choropleth Map)'',
       Show_Chart (Choropleth
         (groupby_size (map (\<lambda>r. key2 (Country r) (Some (Country_Code r))) (frame s a))))], s)"
| "run_branch srt Launches_Over_Time a s =
     (let s1 = modify a set_Date s;
          (b, s2) = alloc (dropna_Date (frame s1 a)) s1;
          month = groupby_size (map Date (frame s2 b))
      in ([Write ''### Launches Over Time (Yearly)'',
           Show_Chart (Plot_Years (groupby_size (map Year (frame s2 b)))),
           Write ''### Launches Over Time (Monthly)'',
           Show_Chart (Line_Rolling month (rolling_mean 30 (map (\<lambda>p. of_nat (snd p)) month)))],
          s2))"
| "run_branch srt Mission_Success_and_Failures a s =
     (let s1 = modify a set_Date s;
          (b, s2) = alloc (dropna_Date (frame s1 a)) s1;
          status = groupby_size (map (\<lambda>r. key2 (Year r) (Mission_Status r)) (frame s2 b))
      in ([Write_Count ''### Number of Successful Missions: ''
             (length (filter (\<lambda>r. Mission_Status r = Some ''Success'') (frame s2 b))),
           Write_Count ''### Number of Failed Missions: ''
             (length (filter (\<lambda>r. Mission_Status r = Some ''Failure'') (frame s2 b))),
           Write ''### Mission Failures Year-on-Year'',
           Show_Chart (Plot_Failures (filter (\<lambda>p. snd (fst p) = ''Failure'') status))],
          s2))"
| "run_branch srt Cold_War_Space_Race a s =
     (let s1 = modify a set_Date s;
          (b, s2) = alloc (dropna_Date (frame s1 a)) s1;
          s3 = modify b fillna_Country s2;
          s4 = modify b recode_cold_war s3;
          launches = groupby_size (map (\<lambda>r. key2 (Year r) (Country r))
                       (filter until_1991 (frame s4 b)));
          usa_ussr = filter (\<lambda>p. snd (fst p) \<in> set [''USA'', ''USSR'']) launches
      in ([Write ''### Cold War Space Race: USA vs USSR''] @
          (if usa_ussr = []
           then [Write ''No data available for USA and USSR launches during the Cold War.'']
           else [Show_Chart (Pie usa_ussr)]),
          s4))"
| "run_branch srt Top_Organization_per_Year a s =
     (let s1 = modify a set_Date s;
          (b, s2) = alloc (dropna_Date (frame s1 a)) s1;
          launches = groupby_size (map (\<lambda>r. key2 (Year r) (Organisation r)) (frame s2 b));
          top10 = take 10 (srt (launch_count_sum launches))
      in ([Write ''### Top 10 Organizations by Number of Launches Over Time'',
           Show_Chart (Bar_Year_Org (merge_inner launches (map fst top10)))],
          s2))"
| "run_branch srt Mission_Failures_Over_Time a s =
     ([Write ''### Percentage of Mission Failures Over Time'',
       Show_Chart (Plot_Percentage (failures_percentage (frame s a)))], s)"

text \<open>
  One run of the script, which Streamlit starts at every selection: line 36, then the
  branch. An exception of the loader ends the run.
\<close>

definition run_script ::
  "bool \<Rightarrow> (string option \<Rightarrow> 'e + string) \<Rightarrow> ((string \<times> nat) list \<Rightarrow> (string \<times> nat) list)
     \<Rightarrow> raw_row list \<Rightarrow> analysis \<Rightarrow> session \<Rightarrow> ('e + event list) \<times> session" where
  "run_script copies get srt csv sel s =
     (case load_data_cached copies get csv s of
        Inl e \<Rightarrow> (Inl e, s)
      | Inr (a, s1) \<Rightarrow> (let (evs, s2) = run_branch srt sel a s1 in (Inr evs, s2)))"

text \<open>The runs of a session, one per selection.\<close>

fun run_session ::
  "bool \<Rightarrow> (string option \<Rightarrow> 'e + string) \<Rightarrow> ((string \<times> nat) list \<Rightarrow> (string \<times> nat) list)
     \<Rightarrow> raw_row list \<Rightarrow> analysis list \<Rightarrow> session \<Rightarrow> ('e + event list) list \<times> session" where
  "run_session copies get srt csv [] s = ([], s)"
| "run_session copies get srt csv (sel # sels) s =
     (let (out, s1) = run_script copies get srt csv sel s;
          (outs, s2) = run_session copies get srt csv sels s1
      in (out # outs, s2))"

section \<open>Notions used to state the properties\<close>

text \<open>\<open>', '.join(ws)\<close>, the inverse of the split.\<close>

fun join :: "string list \<Rightarrow> string" where
  "join [] = []"
| "join [w] = w"
| "join (w # v # ws) = w @ '', '' @ join (v # ws)"

text \<open>The text \<open>w\<close> has no occurrence of the separator.\<close>

definition no_sep :: "string \<Rightarrow> bool" where
  "no_sep w = (\<forall>u v. w \<noteq> u @ '', '' @ v)"

text \<open>The number of rows with a given status, and of those that also have a date.\<close>

definition count_status :: "string \<Rightarrow> mission list \<Rightarrow> nat" where
  "count_status st df = length (filter (\<lambda>r. Mission_Status r = Some st) df)"

definition count_dated_status :: "string \<Rightarrow> mission list \<Rightarrow> nat" where
  "count_dated_status st df =
     length (filter (\<lambda>r. Date r \<noteq> None \<and> Mission_Status r = Some st) df)"

text \<open>Lines 155 and 158 on one row.\<close>

definition recode_row :: "mission \<Rightarrow> mission" where
  "recode_row r =
     (let q = r\<lparr>Country := Some (case Country r of None \<Rightarrow> ''Unknown'' | Some c \<Rightarrow> c)\<rparr>
      in if until_1991 q then q\<lparr>Country := replace cold_war_update (Country q)\<rparr> else q)"

text \<open>The launches of an organisation in a table of counts per year and organisation.\<close>

definition org_total :: "((int \<times> string) \<times> nat) list \<Rightarrow> string \<Rightarrow> nat" where
  "org_total t org = sum_list (map snd (filter (\<lambda>p. snd (fst p) = org) t))"

text \<open>The cache entry, when there is one, is the address of a frame equal to \<open>df\<close>.\<close>

definition caches :: "mission list \<Rightarrow> session \<Rightarrow> bool" where
  "caches df s = (\<forall>c. cache s = Some c \<longrightarrow> c < length (heap s) \<and> heap s ! c = df)"

section \<open>Worked examples\<close>

text \<open>A four-entry excerpt of the reference table; every other name raises.\<close>

definition sample_countries :: "string option \<Rightarrow> string + string" where
  "sample_countries c =
     (if c = Some ''USA'' then Inr ''USA''
      else if c = Some ''Russian Federation'' then Inr ''RUS''
      else if c = Some ''Kazakhstan'' then Inr ''KAZ''
      else if c = Some ''China'' then Inr ''CHN''
      else Inl ''KeyError'')"

definition mk_row :: "string \<Rightarrow> datetime option \<Rightarrow> string \<Rightarrow> string \<Rightarrow> raw_row" where
  "mk_row loc d org st =
     \<lparr>Location = Some loc, Date = d, Organisation = Some org, Mission_Status = Some st\<rparr>"

definition sample_rows :: "raw_row list" where
  "sample_rows =
     [mk_row ''Site, Russia'' (Some (1960, 1, 1, 0)) ''A'' ''Success'',
      mk_row ''Site, USA'' (Some (1960, 2, 1, 0)) ''B'' ''Failure'']"

definition unknown_rows :: "raw_row list" where
  "unknown_rows =
     [mk_row ''Pad, USA'' (Some (1960, 2, 1, 0)) ''B'' ''Failure'',
      mk_row ''Pad, Atlantis'' None ''A'' ''Success'',
      mk_row ''Pad, Russia'' None ''A'' ''Success'']"


text \<open>A loaded row with every cell present but, possibly, the date.\<close>

definition mk_mission :: "datetime option \<Rightarrow> string \<Rightarrow> string \<Rightarrow> string \<Rightarrow> string \<Rightarrow> mission" where
  "mk_mission d org st c code =
     \<lparr>Location = Some (''Pad, '' @ c), Date = d, Organisation = Some org, Mission_Status = Some st,
      Country = Some c, Country_Code = code\<rparr>"

text \<open>One success in 1960 and three failures in 1961.\<close>

definition misaligned_years :: "mission list" where
  "misaligned_years =
     [mk_mission (Some (1960, 5, 1, 0)) ''A'' ''Success'' ''USA'' ''USA'',
      mk_mission (Some (1961, 3, 1, 0)) ''A'' ''Failure'' ''USA'' ''USA'',
      mk_mission (Some (1961, 4, 1, 0)) ''B'' ''Failure'' ''USA'' ''USA'',
      mk_mission (Some (1961, 6, 1, 0)) ''A'' ''Failure'' ''USA'' ''USA'']"

definition undated_success :: "mission list" where
  "undated_success = [mk_mission None ''A'' ''Success'' ''USA'' ''USA'']"

definition mixed_statuses :: "mission list" where
  "mixed_statuses =
     [mk_mission (Some (1960, 5, 1, 0)) ''A'' ''Success'' ''USA'' ''USA'',
      mk_mission (Some (1961, 3, 1, 0)) ''A'' ''Partial Failure'' ''USA'' ''USA'',
      mk_mission (Some (1961, 4, 1, 0)) ''B'' ''success'' ''USA'' ''USA'',
      mk_mission None ''B'' ''Failure'' ''USA'' ''USA'',
      mk_mission (Some (1961, 6, 1, 0)) ''A'' ''Failure'' ''USA'' ''USA'']"


text \<open>A frame with launches of four countries on both sides of 1991.\<close>

definition cold_war_rows :: "mission list" where
  "cold_war_rows =
     [mk_mission (Some (1957, 10, 4, 0)) ''RVSN USSR'' ''Success'' ''Kazakhstan'' ''KAZ'',
      mk_mission (Some (1958, 2, 1, 0)) ''AMBA'' ''Success'' ''USA'' ''USA'',
      mk_mission (Some (1966, 3, 17, 0)) ''RVSN USSR'' ''Success'' ''Russian Federation'' ''RUS'',
      mk_mission (Some (1970, 4, 24, 0)) ''CASC'' ''Success'' ''China'' ''CHN'',
      mk_mission (Some (2000, 7, 12, 0)) ''Roscosmos'' ''Success'' ''Kazakhstan'' ''KAZ'',
      mk_mission None ''NASA'' ''Success'' ''USA'' ''USA'']"

definition china_rows :: "mission list" where
  "china_rows =
     [mk_mission (Some (1970, 4, 24, 0)) ''CASC'' ''Success'' ''China'' ''CHN'',
      mk_mission (Some (2000, 7, 12, 0)) ''Roscosmos'' ''Success'' ''Kazakhstan'' ''KAZ'']"


text \<open>One launch on each day of January 2020, and a second one on the 31st.\<close>

definition thirty_one_days :: "mission list" where
  "thirty_one_days =
     mk_mission (Some (2020, 1, 31, 0)) ''B'' ''Success'' ''USA'' ''USA'' #
     map (\<lambda>n. mk_mission (Some (2020, 1, n, 0)) ''A'' ''Success'' ''USA'' ''USA'') (rev [1..<32])"


text \<open>Ten organisations with two launches each, and one with a single launch.\<close>

definition eleven_orgs :: "mission list" where
  "eleven_orgs =
     mk_mission (Some (2001, 1, 1, 0)) ''K'' ''Success'' ''USA'' ''USA'' #
     concat (map (\<lambda>org. [mk_mission (Some (2001, 1, 1, 0)) org ''Success'' ''USA'' ''USA'',
                          mk_mission (Some (2002, 1, 1, 0)) org ''Success'' ''USA'' ''USA''])
              [''A'', ''B'', ''C'', ''D'', ''E'', ''F'', ''G'', ''H'', ''I'', ''J''])"


text \<open>Three rows of the file: two launches from Kazakhstan, one of them undated, and one from the USA.\<close>

definition cold_war_csv :: "raw_row list" where
  "cold_war_csv =
     [mk_row ''Site 1/5, Baikonur Cosmodrome, Kazakhstan'' (Some (1957, 10, 4, 0))
        ''RVSN USSR'' ''Success'',
      mk_row ''LC-26A, Cape Canaveral AFS, Florida, USA'' (Some (1958, 2, 1, 0))
        ''AMBA'' ''Success'',
      mk_row ''Site 1/5, Baikonur Cosmodrome, Kazakhstan'' None ''RVSN USSR'' ''Failure'']"


section \<open>Properties of the loader\<close>

lemma str_split_nonempty: "str_split s \<noteq> []"
  by (induction s rule: str_split.induct) (auto split: list.splits)

lemma join_Cons: "ws \<noteq> [] \<Longrightarrow> join (w # ws) = w @ '', '' @ join ws"
  by (cases ws) auto

lemma join_str_split: "join (str_split s) = s"
proof (induction s rule: str_split.induct)
  case (3 a b cs)
  show ?case
  proof (cases "a = CHR '','' \<and> b = CHR '' ''")
    case True
    then show ?thesis using 3 by (simp add: join_Cons str_split_nonempty)
  next
    case False
    obtain w ws where sp: "str_split (b # cs) = w # ws"
      using str_split_nonempty[of "b # cs"] by (cases "str_split (b # cs)") auto
    with 3 False have "join (w # ws) = b # cs" by auto
    then have "join ((a # w) # ws) = a # b # cs" by (cases ws) auto
    moreover have "str_split (a # b # cs) = (a # w) # ws" using False sp by auto
    ultimately show ?thesis by simp
  qed
qed auto

lemma no_sep_Nil: "no_sep []"
  by (simp add: no_sep_def)

lemma no_sep_single: "no_sep [a]"
  by (auto simp: no_sep_def Cons_eq_append_conv)

lemma no_sep_Cons:
  assumes "no_sep w" and "\<not> (a = CHR '','' \<and> (w \<noteq> [] \<and> hd w = CHR '' ''))"
  shows "no_sep (a # w)"
  unfolding no_sep_def
proof (intro allI notI)
  fix u v assume eq: "a # w = u @ '', '' @ v"
  show False
  proof (cases u)
    case Nil
    with eq assms(2) show False by auto
  next
    case (Cons x u')
    with eq have "w = u' @ '', '' @ v" by simp
    with assms(1) show False unfolding no_sep_def by blast
  qed
qed

lemma hd_join: "w \<noteq> [] \<Longrightarrow> hd (join (w # ws)) = hd w"
  by (cases ws) auto

lemma str_split_no_sep: "w \<in> set (str_split s) \<Longrightarrow> no_sep w"
proof (induction s arbitrary: w rule: str_split.induct)
  case 1
  then show ?case by (simp add: no_sep_Nil)
next
  case (2 a)
  then show ?case by (simp add: no_sep_single)
next
  case (3 a b cs)
  show ?case
  proof (cases "a = CHR '','' \<and> b = CHR '' ''")
    case True
    with 3 show ?thesis by (auto simp: no_sep_Nil)
  next
    case False
    obtain x xs where sp: "str_split (b # cs) = x # xs"
      using str_split_nonempty[of "b # cs"] by (cases "str_split (b # cs)") auto
    have sp': "str_split (a # b # cs) = (a # x) # xs" using False sp by auto
    have j: "join (x # xs) = b # cs" using join_str_split[of "b # cs"] sp by simp
    have ih: "\<And>y. y \<in> set (x # xs) \<Longrightarrow> no_sep y" using 3(2) False sp by auto
    have "x \<noteq> [] \<Longrightarrow> hd x = b" using hd_join[of x xs] j by simp
    then have "no_sep (a # x)" using False ih[of x] by (intro no_sep_Cons) auto
    then show ?thesis using 3(3) sp' ih by auto
  qed
qed

lemma join_last: "ws \<noteq> [] \<Longrightarrow> join ws = last ws \<or> (\<exists>p. join ws = p @ '', '' @ last ws)"
proof (induction ws rule: join.induct)
  case (3 w v ws)
  then have "join (v # ws) = last (v # ws) \<or> (\<exists>p. join (v # ws) = p @ '', '' @ last (v # ws))"
    by simp
  then show ?case
  proof
    assume "join (v # ws) = last (v # ws)"
    then have "join (w # v # ws) = w @ '', '' @ last (w # v # ws)" by simp
    then show ?thesis by blast
  next
    assume "\<exists>p. join (v # ws) = p @ '', '' @ last (v # ws)"
    then obtain p where "join (v # ws) = p @ '', '' @ last (v # ws)" by blast
    then have "join (w # v # ws) = (w @ '', '' @ p) @ '', '' @ last (w # v # ws)" by simp
    then show ?thesis by blast
  qed
qed auto

lemma last_segment:
  "s = last (str_split s) \<or> (\<exists>p. s = p @ '', '' @ last (str_split s))"
  using join_last[OF str_split_nonempty, of s] by (simp add: join_str_split)

lemma update_values_not_keys: "\<forall>v \<in> snd ` set update. map_of update v = None"
  by (simp add: update_def)

lemma replace_update_idem: "replace update (replace update v) = replace update v"
proof (cases v)
  case None
  then show ?thesis by (simp add: replace_def)
next
  case (Some x)
  note vx = Some
  show ?thesis
  proof (cases "map_of update x")
    case None
    with vx show ?thesis by (simp add: replace_def)
  next
    case (Some y)
    then have "(x, y) \<in> set update" by (rule map_of_SomeD)
    then have "y \<in> snd ` set update" by force
    then have "map_of update y = None" by (rule update_values_not_keys[rule_format])
    with Some vx show ?thesis by (simp add: replace_def)
  qed
qed

lemma load_data_Inr:
  "load_data get rs = Inr ms \<Longrightarrow> list_all2 (\<lambda>r m. with_country get r = Inr m) rs ms"
  by (induction rs arbitrary: ms) (auto split: sum.splits)

lemma with_country_Inl:
  "with_country get r = Inl e \<longleftrightarrow> get (country_of_location (Location r)) = Inl e"
  by (simp add: with_country_def Let_def split: sum.splits)

lemma with_country_Inr:
  "with_country get r = Inr m \<Longrightarrow>
     Country m = country_of_location (Location r) \<and> get (Country m) = Inr (Country_Code m) \<and>
     Location m = Location r \<and> Date m = Date r \<and> Organisation m = Organisation r \<and>
     Mission_Status m = Mission_Status r"
  by (auto simp: with_country_def Let_def split: sum.splits)

lemma load_data_Inl_iff:
  "load_data get rs = Inl e \<longleftrightarrow>
     (\<exists>i<length rs. with_country get (rs ! i) = Inl e \<and>
        (\<forall>j<i. \<exists>m. with_country get (rs ! j) = Inr m))"
proof (induction rs)
  case Nil
  then show ?case by simp
next
  case (Cons r rs)
  show ?case
  proof (cases "with_country get r")
    case (Inl e')
    show ?thesis
    proof
      assume "load_data get (r # rs) = Inl e"
      with Inl have "e' = e" by simp
      with Inl show "\<exists>i<length (r # rs). with_country get ((r # rs) ! i) = Inl e \<and>
        (\<forall>j<i. \<exists>m. with_country get ((r # rs) ! j) = Inr m)"
        by (intro exI[of _ 0]) simp
    next
      assume "\<exists>i<length (r # rs). with_country get ((r # rs) ! i) = Inl e \<and>
        (\<forall>j<i. \<exists>m. with_country get ((r # rs) ! j) = Inr m)"
      then obtain i where i: "i < length (r # rs)" "with_country get ((r # rs) ! i) = Inl e"
        "\<forall>j<i. \<exists>m. with_country get ((r # rs) ! j) = Inr m" by blast
      have "i = 0"
      proof (rule ccontr)
        assume "i \<noteq> 0"
        then have "\<exists>m. with_country get ((r # rs) ! 0) = Inr m" using i(3) by blast
        with Inl show False by simp
      qed
      with i(2) Inl show "load_data get (r # rs) = Inl e" by simp
    qed
  next
    case (Inr m)
    have "load_data get (r # rs) = Inl e \<longleftrightarrow> load_data get rs = Inl e"
      using Inr by (simp split: sum.splits)
    also have "\<dots> \<longleftrightarrow> (\<exists>i<length rs. with_country get (rs ! i) = Inl e \<and>
        (\<forall>j<i. \<exists>m. with_country get (rs ! j) = Inr m))" by (rule Cons.IH)
    also have "\<dots> \<longleftrightarrow> (\<exists>i<length (r # rs). with_country get ((r # rs) ! i) = Inl e \<and>
        (\<forall>j<i. \<exists>m. with_country get ((r # rs) ! j) = Inr m))" (is "?L \<longleftrightarrow> ?R")
    proof
      assume ?L
      then obtain i where i: "i < length rs" "with_country get (rs ! i) = Inl e"
        "\<forall>j<i. \<exists>m. with_country get (rs ! j) = Inr m" by blast
      have "\<forall>j<Suc i. \<exists>m. with_country get ((r # rs) ! j) = Inr m"
        using i(3) Inr by (auto simp: nth_Cons')
      with i(1,2) show ?R by (intro exI[of _ "Suc i"]) simp
    next
      assume ?R
      then obtain i where i: "i < length (r # rs)" "with_country get ((r # rs) ! i) = Inl e"
        "\<forall>j<i. \<exists>m. with_country get ((r # rs) ! j) = Inr m" by blast
      from i(2) Inr obtain k where k: "i = Suc k" by (cases i) auto
      have "\<forall>j<k. \<exists>m. with_country get (rs ! j) = Inr m"
      proof (intro allI impI)
        fix j assume "j < k"
        then have "Suc j < i" using k by simp
        with i(3) have "\<exists>m. with_country get ((r # rs) ! Suc j) = Inr m" by blast
        then show "\<exists>m. with_country get (rs ! j) = Inr m" by simp
      qed
      with i(1,2) k show ?L by (intro exI[of _ k]) simp
    qed
    finally show ?thesis .
  qed
qed

lemma load_data_nth:
  assumes "load_data get rs = Inr ms" and "i < length rs"
  shows "length ms = length rs" and "with_country get (rs ! i) = Inr (ms ! i)"
  using load_data_Inr[OF assms(1)] assms(2) by (auto simp: list_all2_conv_all_nth)

text \<open>
  C2. Every row of a loaded table has as \<open>Country\<close> the last segment of its \<open>Location\<close>
  split on \<open>", "\<close> (the part after the last separator, itself free of separators), passed
  once through the alias table: a token that is a key is replaced by its entry, any other
  token is kept. A second pass would change nothing. The table has exactly the thirteen
  keys listed, each once.
\<close>

theorem country_is_aliased_last_segment:
  assumes "load_data get rs = Inr ms" and "i < length rs"
  shows "length ms = length rs \<and>
         Country (ms ! i) = country_of_location (Location (rs ! i)) \<and>
         (Location (rs ! i) = None \<longrightarrow> Country (ms ! i) = None) \<and>
         (\<forall>s. Location (rs ! i) = Some s \<longrightarrow>
            (s = last (str_split s) \<or> (\<exists>p. s = p @ '', '' @ last (str_split s))) \<and>
            no_sep (last (str_split s)) \<and>
            Country (ms ! i) =
              Some (case map_of update (last (str_split s)) of
                      None \<Rightarrow> last (str_split s)
                    | Some c \<Rightarrow> c)) \<and>
         replace update (Country (ms ! i)) = Country (ms ! i) \<and>
         map fst update =
           [''Russia'', ''New Mexico'', ''Yellow Sea'', ''Shahrud Missile Test Site'',
            ''Pacific Missile Range Facility'', ''Barents Sea'', ''Gran Canaria'',
            ''Marshall Islands'', ''Iran'', ''North Korea'', ''South Korea'',
            ''United Kingdom'', ''Pacific Ocean''] \<and>
         distinct (map fst update) \<and>
         map_of update ''Russia'' = Some ''Russian Federation'' \<and>
         map_of update ''North Korea'' = Some ''Korea, Democratic People's Republic of''"
proof -
  have len: "length ms = length rs" and wc: "with_country get (rs ! i) = Inr (ms ! i)"
    using load_data_nth[OF assms] by auto
  have c: "Country (ms ! i) = country_of_location (Location (rs ! i))"
    using with_country_Inr[OF wc] by simp
  have none: "Location (rs ! i) = None \<longrightarrow> Country (ms ! i) = None"
    using c by (simp add: country_of_location_def replace_def)
  have some: "\<forall>s. Location (rs ! i) = Some s \<longrightarrow>
            (s = last (str_split s) \<or> (\<exists>p. s = p @ '', '' @ last (str_split s))) \<and>
            no_sep (last (str_split s)) \<and>
            Country (ms ! i) =
              Some (case map_of update (last (str_split s)) of
                      None \<Rightarrow> last (str_split s)
                    | Some c \<Rightarrow> c)"
  proof (intro allI impI conjI)
    fix s assume s: "Location (rs ! i) = Some s"
    show "s = last (str_split s) \<or> (\<exists>p. s = p @ '', '' @ last (str_split s))"
      by (rule last_segment)
    show "no_sep (last (str_split s))"
      by (rule str_split_no_sep[of _ s]) (simp add: str_split_nonempty)
    show "Country (ms ! i) =
              Some (case map_of update (last (str_split s)) of
                      None \<Rightarrow> last (str_split s)
                    | Some c \<Rightarrow> c)"
      using c s
      by (simp add: country_of_location_def replace_def str_get_last_def str_split_nonempty
          split: option.splits)
  qed
  have idem: "replace update (Country (ms ! i)) = Country (ms ! i)"
    unfolding c country_of_location_def by (rule replace_update_idem)
  have keys: "map fst update =
           [''Russia'', ''New Mexico'', ''Yellow Sea'', ''Shahrud Missile Test Site'',
            ''Pacific Missile Range Facility'', ''Barents Sea'', ''Gran Canaria'',
            ''Marshall Islands'', ''Iran'', ''North Korea'', ''South Korea'',
            ''United Kingdom'', ''Pacific Ocean'']"
    by (simp add: update_def)
  have dist: "distinct (map fst update)"
    by (simp add: update_def)
  have e1: "map_of update ''Russia'' = Some ''Russian Federation''"
    by (simp add: update_def)
  have e2: "map_of update ''North Korea'' = Some ''Korea, Democratic People's Republic of''"
    by (simp add: update_def)
  from len c none some idem keys dist e1 e2 show ?thesis by blast
qed

lemma load_sample_rows:
  "load_data sample_countries sample_rows =
     Inr [\<lparr>Location = Some ''Site, Russia'', Date = Some (1960, 1, 1, 0),
           Organisation = Some ''A'', Mission_Status = Some ''Success'',
           Country = Some ''Russian Federation'', Country_Code = ''RUS''\<rparr>,
          \<lparr>Location = Some ''Site, USA'', Date = Some (1960, 2, 1, 0),
           Organisation = Some ''B'', Mission_Status = Some ''Failure'',
           Country = Some ''USA'', Country_Code = ''USA''\<rparr>]"
  by (simp add: sample_rows_def mk_row_def with_country_def country_of_location_def
      str_get_last_def replace_def update_def sample_countries_def)

theorem country_is_aliased_last_segment_witness:
  "load_data sample_countries sample_rows
     = Inr (projr (load_data sample_countries sample_rows)) \<and>
   (0::nat) < length sample_rows \<and>
   Location (sample_rows ! 0) = Some ''Site, Russia'' \<and>
   last (str_split ''Site, Russia'') = ''Russia'' \<and>
   Country (projr (load_data sample_countries sample_rows) ! 0) = Some ''Russian Federation''"
proof -
  have h: "load_data sample_countries sample_rows
     = Inr (projr (load_data sample_countries sample_rows))"
    by (simp add: load_sample_rows)
  have i: "(0::nat) < length sample_rows"
    by (simp add: sample_rows_def)
  have l: "Location (sample_rows ! 0) = Some ''Site, Russia''"
    by (simp add: sample_rows_def mk_row_def)
  have t: "last (str_split ''Site, Russia'') = ''Russia''"
    by simp
  have "Country (projr (load_data sample_countries sample_rows) ! 0) =
          Some (case map_of update (last (str_split ''Site, Russia'')) of
                  None \<Rightarrow> last (str_split ''Site, Russia'')
                | Some c \<Rightarrow> c)"
    using country_is_aliased_last_segment[OF h i] l by blast
  then have "Country (projr (load_data sample_countries sample_rows) ! 0)
      = Some ''Russian Federation''"
    by (simp add: update_def)
  with h i l t show ?thesis by blast
qed

lemma with_country_Inr_iff:
  "(\<exists>m. with_country get r = Inr m) \<longleftrightarrow> (\<exists>c. get (country_of_location (Location r)) = Inr c)"
  by (auto simp: with_country_def Let_def split: sum.splits)

lemma load_data_fails_if_row_fails:
  assumes "r \<in> set rs" and "get (country_of_location (Location r)) = Inl e"
  shows "\<exists>e'. load_data get rs = Inl e'"
proof (cases "load_data get rs")
  case (Inl e')
  then show ?thesis by blast
next
  case (Inr ms)
  from assms(1) obtain i where i: "i < length rs" "rs ! i = r" by (auto simp: in_set_conv_nth)
  from load_data_nth(2)[OF Inr i(1)] i(2) have "with_country get r = Inr (ms ! i)" by simp
  with assms(2) show ?thesis by (simp add: with_country_def Let_def)
qed

text \<open>
  C3. The load fails exactly when some row's \<open>Country\<close> has no entry in the reference
  table, with the exception the lookup raises for the first such row (nothing catches
  it). A load that succeeds keeps every row, in order and with its cells, and gives each
  row the code the table has for its \<open>Country\<close>, of three letters when the table's
  codes are.
\<close>

theorem unknown_country_aborts_load:
  assumes codes: "\<forall>x c. get x = Inr c \<longrightarrow> length c = 3"
  shows "(load_data get rs = Inl e \<longleftrightarrow>
            (\<exists>i<length rs. get (country_of_location (Location (rs ! i))) = Inl e \<and>
               (\<forall>j<i. \<exists>c. get (country_of_location (Location (rs ! j))) = Inr c))) \<and>
         ((\<exists>r\<in>set rs. \<exists>x. get (country_of_location (Location r)) = Inl x)
            \<longleftrightarrow> (\<exists>x. load_data get rs = Inl x)) \<and>
         (\<forall>ms. load_data get rs = Inr ms \<longrightarrow>
            length ms = length rs \<and>
            (\<forall>i<length rs.
               get (Country (ms ! i)) = Inr (Country_Code (ms ! i)) \<and>
               length (Country_Code (ms ! i)) = 3 \<and>
               Location (ms ! i) = Location (rs ! i) \<and> Date (ms ! i) = Date (rs ! i) \<and>
               Organisation (ms ! i) = Organisation (rs ! i) \<and>
               Mission_Status (ms ! i) = Mission_Status (rs ! i)))"
proof (intro conjI)
  show "load_data get rs = Inl e \<longleftrightarrow>
            (\<exists>i<length rs. get (country_of_location (Location (rs ! i))) = Inl e \<and>
               (\<forall>j<i. \<exists>c. get (country_of_location (Location (rs ! j))) = Inr c))"
    by (simp only: load_data_Inl_iff with_country_Inl with_country_Inr_iff)
next
  show "(\<exists>r\<in>set rs. \<exists>x. get (country_of_location (Location r)) = Inl x)
            \<longleftrightarrow> (\<exists>x. load_data get rs = Inl x)"
  proof
    assume "\<exists>r\<in>set rs. \<exists>x. get (country_of_location (Location r)) = Inl x"
    then obtain r x where "r \<in> set rs" "get (country_of_location (Location r)) = Inl x"
      by (elim bexE exE)
    then show "\<exists>x. load_data get rs = Inl x" by (rule load_data_fails_if_row_fails)
  next
    assume "\<exists>x. load_data get rs = Inl x"
    then obtain x where "load_data get rs = Inl x" by (elim exE)
    then have "\<exists>i<length rs. with_country get (rs ! i) = Inl x \<and>
        (\<forall>j<i. \<exists>m. with_country get (rs ! j) = Inr m)"
      by (simp only: load_data_Inl_iff)
    then obtain i where i: "i < length rs" and w: "with_country get (rs ! i) = Inl x"
      by (elim exE conjE)
    from w have g: "get (country_of_location (Location (rs ! i))) = Inl x"
      by (simp only: with_country_Inl)
    from i have m: "rs ! i \<in> set rs" by (rule nth_mem)
    from g have "\<exists>x. get (country_of_location (Location (rs ! i))) = Inl x" by (rule exI)
    with m show "\<exists>r\<in>set rs. \<exists>x. get (country_of_location (Location r)) = Inl x"
      by (rule bexI[rotated])
  qed
next
  show "\<forall>ms. load_data get rs = Inr ms \<longrightarrow>
            length ms = length rs \<and>
            (\<forall>i<length rs.
               get (Country (ms ! i)) = Inr (Country_Code (ms ! i)) \<and>
               length (Country_Code (ms ! i)) = 3 \<and>
               Location (ms ! i) = Location (rs ! i) \<and> Date (ms ! i) = Date (rs ! i) \<and>
               Organisation (ms ! i) = Organisation (rs ! i) \<and>
               Mission_Status (ms ! i) = Mission_Status (rs ! i))"
  proof (intro allI impI conjI)
    fix ms assume ok: "load_data get rs = Inr ms"
    show "length ms = length rs" using load_data_Inr[OF ok] by (simp add: list_all2_lengthD)
  next
    fix ms i assume ok: "load_data get rs = Inr ms" and i: "i < length rs"
    note w = with_country_Inr[OF load_data_nth(2)[OF ok i]]
    show g: "get (Country (ms ! i)) = Inr (Country_Code (ms ! i))"
      by (rule w[THEN conjunct2, THEN conjunct1])
    show "length (Country_Code (ms ! i)) = 3" using g by (rule codes[rule_format])
    show "Location (ms ! i) = Location (rs ! i)"
      by (rule w[THEN conjunct2, THEN conjunct2, THEN conjunct1])
    show "Date (ms ! i) = Date (rs ! i)"
      by (rule w[THEN conjunct2, THEN conjunct2, THEN conjunct2, THEN conjunct1])
    show "Organisation (ms ! i) = Organisation (rs ! i)"
      by (rule w[THEN conjunct2, THEN conjunct2, THEN conjunct2, THEN conjunct2, THEN conjunct1])
    show "Mission_Status (ms ! i) = Mission_Status (rs ! i)"
      by (rule w[THEN conjunct2, THEN conjunct2, THEN conjunct2, THEN conjunct2, THEN conjunct2])
  qed
qed

lemma sample_countries_codes: "sample_countries x = Inr c \<Longrightarrow> length c = 3"
  by (auto simp: sample_countries_def split: if_splits)

lemma load_unknown_rows: "load_data sample_countries unknown_rows = Inl ''KeyError''"
  by (simp add: unknown_rows_def mk_row_def with_country_def country_of_location_def
      str_get_last_def replace_def update_def sample_countries_def)

theorem unknown_country_aborts_load_witness:
  "load_data sample_countries unknown_rows = Inl ''KeyError'' \<and>
   sample_countries (country_of_location (Location (unknown_rows ! 1))) = Inl ''KeyError'' \<and>
   load_data sample_countries sample_rows
     = Inr (projr (load_data sample_countries sample_rows)) \<and>
   length (projr (load_data sample_countries sample_rows)) = length sample_rows \<and>
   (1::nat) < length sample_rows \<and>
   length (Country_Code (projr (load_data sample_countries sample_rows) ! 1)) = 3"
proof -
  have c: "\<forall>x c. sample_countries x = Inr c \<longrightarrow> length c = 3"
    using sample_countries_codes by blast
  have bad: "load_data sample_countries unknown_rows = Inl ''KeyError''"
    by (rule load_unknown_rows)
  have ok: "load_data sample_countries sample_rows
     = Inr (projr (load_data sample_countries sample_rows))"
    by (simp add: load_sample_rows)
  have i: "(1::nat) < length sample_rows" by (simp add: sample_rows_def)
  note bad_case = unknown_country_aborts_load[of sample_countries unknown_rows "''KeyError''",
      OF c]
  note ok_case = unknown_country_aborts_load[of sample_countries sample_rows "''KeyError''",
      OF c]
  have ex: "\<exists>x. load_data sample_countries unknown_rows = Inl x"
    using bad by (rule exI)
  have B: "(\<exists>r\<in>set unknown_rows. \<exists>x. sample_countries (country_of_location (Location r)) = Inl x)
      \<longleftrightarrow> (\<exists>x. load_data sample_countries unknown_rows = Inl x)"
    by (rule bad_case[THEN conjunct2, THEN conjunct1])
  from B ex have r: "\<exists>r\<in>set unknown_rows. \<exists>x. sample_countries (country_of_location (Location r)) = Inl x"
    by (rule iffD2)
  note good = ok_case[THEN conjunct2, THEN conjunct2, rule_format, OF ok]
  have len: "length (projr (load_data sample_countries sample_rows)) = length sample_rows"
    by (rule good[THEN conjunct1])
  have code: "length (Country_Code (projr (load_data sample_countries sample_rows) ! 1)) = 3"
    using good[THEN conjunct2, rule_format, OF i] by (rule conjunct1[OF conjunct2])
  have g: "sample_countries (country_of_location (Location (unknown_rows ! 1))) = Inl ''KeyError''"
    by (simp add: unknown_rows_def mk_row_def country_of_location_def str_get_last_def
        replace_def update_def sample_countries_def)
  show ?thesis
    by (intro conjI bad g ok len i code)
qed

section \<open>Properties of the analyses\<close>

lemma set_Date_id: "set_Date df = df"
  by (simp add: set_Date_def to_datetime_coerce_def)

text \<open>
  C1. On a table with one success in 1960 and three failures in 1961, the failure table
  has the single row of 1961, and its percentage is computed from the total of the first
  row of the totals table, which is the total of 1960: 300 percent, where the failures of
  1961 divided by the total of 1961 give 100.
\<close>

theorem failures_percentage_pairs_by_position:
  "total_mission_status_year_on_year misaligned_years = [(1960, 1), (1961, 3)] \<and>
   failures_year_on_year misaligned_years = [(1961, 3)] \<and>
   failures_percentage misaligned_years = [(1961, 3, Some 300)]"
  by code_simp

text \<open>
  C5, as stated, fails: a row with status \<open>Success\<close> and no date is not in the count of
  successful missions.
\<close>

theorem null_date_success_not_counted:
  "successful_missions undated_success = 0 \<and>
   count_status ''Success'' undated_success = 1 \<and>
   successful_missions undated_success \<noteq> count_status ''Success'' undated_success"
  by (simp add: successful_missions_def count_status_def undated_success_def mk_mission_def
      set_Date_id dropna_Date_def)

text \<open>
  C5, amended. The two numbers count the rows that have a date and whose status is exactly
  \<open>Success\<close>, respectively \<open>Failure\<close>: a row with no date or with any other status changes
  neither, a dated row with one of the two statuses adds one to its count only.
\<close>

theorem status_counts_over_dated_rows:
  "successful_missions df = count_dated_status ''Success'' df \<and>
   failed_missions df = count_dated_status ''Failure'' df \<and>
   (Date r = None \<or> (Mission_Status r \<noteq> Some ''Success'' \<and> Mission_Status r \<noteq> Some ''Failure'')
      \<longrightarrow> successful_missions (r # df) = successful_missions df \<and>
          failed_missions (r # df) = failed_missions df) \<and>
   (Date r \<noteq> None \<and> Mission_Status r = Some ''Success''
      \<longrightarrow> successful_missions (r # df) = Suc (successful_missions df) \<and>
          failed_missions (r # df) = failed_missions df) \<and>
   (Date r \<noteq> None \<and> Mission_Status r = Some ''Failure''
      \<longrightarrow> successful_missions (r # df) = successful_missions df \<and>
          failed_missions (r # df) = Suc (failed_missions df))"
  by (simp add: successful_missions_def failed_missions_def count_dated_status_def set_Date_id
      dropna_Date_def filter_filter conj_commute)

theorem status_counts_over_dated_rows_witness:
  "successful_missions mixed_statuses = 1 \<and> failed_missions mixed_statuses = 1 \<and>
   count_dated_status ''Success'' mixed_statuses = 1 \<and>
   successful_missions (hd undated_success # mixed_statuses) = 1 \<and>
   Date (hd undated_success) = None"
proof -
  have d: "Date (hd undated_success) = None"
    by (simp add: undated_success_def mk_mission_def)
  have c: "count_dated_status ''Success'' mixed_statuses = 1"
    by (simp add: count_dated_status_def mixed_statuses_def mk_mission_def)
  have f: "count_dated_status ''Failure'' mixed_statuses = 1"
    by (simp add: count_dated_status_def mixed_statuses_def mk_mission_def)
  note t = status_counts_over_dated_rows[of mixed_statuses "hd undated_success"]
  have s1: "successful_missions mixed_statuses = 1"
    using t[THEN conjunct1] c by simp
  have f1: "failed_missions mixed_statuses = 1"
    using t[THEN conjunct2, THEN conjunct1] f by simp
  have "successful_missions (hd undated_success # mixed_statuses)
      = successful_missions mixed_statuses"
    using t[THEN conjunct2, THEN conjunct2, THEN conjunct1] d by simp
  with s1 have s2: "successful_missions (hd undated_success # mixed_statuses) = 1" by simp
  show ?thesis by (intro conjI s1 f1 c s2 d)
qed

lemma set_present: "set (present xs) = {x. Some x \<in> set xs}"
  by (induction xs rule: present.induct) auto

lemma count_list_present_map:
  "count_list (present (map f df)) k = length (filter (\<lambda>r. f r = Some k) df)"
proof (induction df)
  case Nil
  then show ?case by simp
next
  case (Cons r df)
  then show ?case by (cases "f r") auto
qed

lemma set_present_map: "k \<in> set (present (map f df)) \<longleftrightarrow> (\<exists>r\<in>set df. f r = Some k)"
  unfolding set_present by (force simp: image_iff)

lemma groupby_size_keys: "map fst (groupby_size ks) = sort (remdups (present ks))"
  by (simp add: groupby_size_def Let_def comp_def)

lemma groupby_size_sorted: "sorted (map fst (groupby_size ks))"
  by (simp add: groupby_size_keys)

lemma groupby_size_distinct: "distinct (map fst (groupby_size ks))"
  by (simp add: groupby_size_keys)

lemma groupby_size_mem:
  "(k, n) \<in> set (groupby_size ks) \<longleftrightarrow> k \<in> set (present ks) \<and> n = count_list (present ks) k"
  by (auto simp: groupby_size_def Let_def)

lemma groupby_size_map_mem:
  "(k, n) \<in> set (groupby_size (map f df)) \<longleftrightarrow>
     (\<exists>r\<in>set df. f r = Some k) \<and> n = length (filter (\<lambda>r. f r = Some k) df)"
  by (simp add: groupby_size_mem set_present_map count_list_present_map)

lemma set_unique: "set (unique xs) = set xs"
  by (simp add: unique_def)

lemma distinct_unique: "distinct (unique xs)"
  by (simp add: unique_def)

lemma sorts_descending_set: "sorts_descending srt \<Longrightarrow> set (srt xs) = set xs"
  unfolding sorts_descending_def by (metis mset_eq_setD)

lemma sorts_descending_keys:
  assumes "sorts_descending srt"
  shows "mset (map fst (srt xs)) = mset (map fst xs)"
proof -
  have "mset (srt xs) = mset xs" using assms by (simp add: sorts_descending_def)
  then have "image_mset fst (mset (srt xs)) = image_mset fst (mset xs)" by simp
  then show ?thesis by simp
qed

lemma sorts_descending_sorted:
  "sorts_descending srt \<Longrightarrow> sorted_wrt (\<lambda>a b. snd b \<le> snd a) (srt xs)"
  by (simp add: sorts_descending_def)

lemma sort_values_desc_ok: "sorts_descending sort_values_desc"
proof -
  have "sorted_wrt (\<lambda>a b. snd b \<le> snd a) (rev (sort_key snd xs))" for xs :: "(string \<times> nat) list"
  proof -
    have "sorted (map snd (sort_key snd xs))" by (rule sorted_sort_key)
    then have "sorted_wrt (\<lambda>a b. snd a \<le> snd b) (sort_key snd xs)"
      by (simp add: sorted_map)
    then show ?thesis by (simp add: sorted_wrt_rev)
  qed
  then show ?thesis by (simp add: sorts_descending_def sort_values_desc_def)
qed

lemma unique_distinct_id: "distinct xs \<Longrightarrow> unique xs = xs"
  by (simp add: unique_def distinct_remdups_id)

lemma filter_key_distinct:
  "distinct (map fst t) \<Longrightarrow> p \<in> set t \<Longrightarrow> filter (\<lambda>q. fst q = fst p) t = [p]"
proof (induction t)
  case Nil
  then show ?case by simp
next
  case (Cons x t)
  show ?case
  proof (cases "p = x")
    case True
    have "fst x \<notin> fst ` set t" using Cons.prems(1) by simp
    then have "\<forall>q\<in>set t. fst q \<noteq> fst x" by (metis image_eqI)
    then have "filter (\<lambda>q. fst q = fst x) t = []" by (simp add: filter_empty_conv)
    with True show ?thesis by simp
  next
    case False
    with Cons.prems have m: "p \<in> set t" and d: "distinct (map fst t)" by simp_all
    from m Cons.prems(1) have "fst x \<noteq> fst p" by force
    with Cons.IH[OF d m] show ?thesis by simp
  qed
qed

lemma category_totals_distinct:
  assumes "distinct (map fst t)"
  shows "category_totals t = t"
proof -
  have "category_totals t
      = map (\<lambda>p. (fst p, sum_list (map snd (filter (\<lambda>q. fst q = fst p) t)))) t"
    by (simp add: category_totals_def unique_distinct_id[OF assms] comp_def)
  also have "\<dots> = map (\<lambda>p. p) t"
    by (rule map_cong[OF refl]) (simp add: filter_key_distinct[OF assms])
  finally show ?thesis by simp
qed

lemma sort_total_asc_ok: "sorts_ascending sort_total_asc"
proof -
  have "sorted_wrt (\<lambda>a b. snd a \<le> snd b) (sort_key snd xs)" for xs :: "(string \<times> nat) list"
  proof -
    have "sorted (map snd (sort_key snd xs))" by (rule sorted_sort_key)
    then show ?thesis by (simp add: sorted_map)
  qed
  then show ?thesis by (simp add: sorts_ascending_def sort_total_asc_def)
qed

text \<open>
  C8. The table of line 56 has one row per distinct organisation that occurs in the frame
  (a missing cell is no organisation), with the number of its rows; the rows of the table
  itself come in descending order of that number. The figure of lines 60-62 is drawn from
  these rows with the category order \<open>total ascending\<close>, so what the aggregation puts
  on the page is the same rows, one bar per organisation, in ascending order of the number
  of launches, whatever the two sorts do with equal counts.
\<close>

theorem launches_by_organisation_shown_ascending:
  assumes "sorts_descending srt" and "sorts_ascending asc"
  shows "distinct (map fst (no_of_launches_per_company srt df)) \<and>
         set (map fst (no_of_launches_per_company srt df))
           = {org. \<exists>r\<in>set df. Organisation r = Some org} \<and>
         (\<forall>p\<in>set (no_of_launches_per_company srt df).
            snd p = length (filter (\<lambda>r. Organisation r = Some (fst p)) df)) \<and>
         sorted_wrt (\<lambda>a b. snd b \<le> snd a) (no_of_launches_per_company srt df) \<and>
         bars (launches_by_organisation_figure srt df) = no_of_launches_per_company srt df \<and>
         xaxis_categoryorder (launches_by_organisation_figure srt df) = Total_Ascending \<and>
         mset (xaxis_categories asc (launches_by_organisation_figure srt df))
           = mset (no_of_launches_per_company srt df) \<and>
         sorted_wrt (\<lambda>a b. snd a \<le> snd b)
           (xaxis_categories asc (launches_by_organisation_figure srt df)) \<and>
         sorted (map snd (xaxis_categories asc (launches_by_organisation_figure srt df)))"
proof -
  define vs where "vs = present (map Organisation df)"
  define xs where "xs = map (\<lambda>k. (k, count_list vs k)) (unique vs)"
  have t: "no_of_launches_per_company srt df = srt xs"
    by (simp add: no_of_launches_per_company_def value_counts_def Let_def xs_def vs_def)
  have keys: "map fst xs = unique vs" by (simp add: xs_def comp_def)
  have m: "mset (map fst (srt xs)) = mset (unique vs)"
    using sorts_descending_keys[OF assms(1), of xs] keys by simp
  have d: "distinct (map fst (srt xs))"
    using m distinct_unique[of vs] by (metis mset_eq_imp_distinct_iff)
  have "set (map fst (srt xs)) = set (unique vs)" using m by (rule mset_eq_setD)
  then have s: "set (map fst (srt xs)) = {org. \<exists>r\<in>set df. Organisation r = Some org}"
    by (simp add: set_unique vs_def set_present_map[symmetric] set_eq_iff)
  have c: "\<forall>p\<in>set (srt xs). snd p = length (filter (\<lambda>r. Organisation r = Some (fst p)) df)"
    unfolding sorts_descending_set[OF assms(1)]
    by (auto simp: xs_def vs_def count_list_present_map)
  have o: "sorted_wrt (\<lambda>a b. snd b \<le> snd a) (srt xs)"
    by (rule sorts_descending_sorted[OF assms(1)])
  have b: "bars (launches_by_organisation_figure srt df) = srt xs"
    by (simp add: launches_by_organisation_figure_def update_layout_xaxis_def px_bar_def t)
  have co: "xaxis_categoryorder (launches_by_organisation_figure srt df) = Total_Ascending"
    by (simp add: launches_by_organisation_figure_def update_layout_xaxis_def)
  have x: "xaxis_categories asc (launches_by_organisation_figure srt df) = asc (srt xs)"
    by (simp add: xaxis_categories_def co b category_totals_distinct[OF d])
  have xm: "mset (asc (srt xs)) = mset (srt xs)"
    using assms(2) by (simp add: sorts_ascending_def)
  have xo: "sorted_wrt (\<lambda>a b. snd a \<le> snd b) (asc (srt xs))"
    using assms(2) by (simp add: sorts_ascending_def)
  then have xo': "sorted (map snd (asc (srt xs)))" by (simp add: sorted_map)
  show ?thesis unfolding x b unfolding t by (intro conjI d s c o refl co xm xo xo')
qed

theorem launches_by_organisation_shown_ascending_witness:
  "no_of_launches_per_company sort_values_desc misaligned_years = [(''A'', 3), (''B'', 1)] \<and>
   xaxis_categories sort_total_asc
     (launches_by_organisation_figure sort_values_desc misaligned_years)
     = [(''B'', 1), (''A'', 3)] \<and>
   sorted (map snd (xaxis_categories sort_total_asc
     (launches_by_organisation_figure sort_values_desc misaligned_years))) \<and>
   distinct (map fst (no_of_launches_per_company sort_values_desc misaligned_years))"
proof -
  note t = launches_by_organisation_shown_ascending[OF sort_values_desc_ok sort_total_asc_ok,
      of misaligned_years]
  have v: "no_of_launches_per_company sort_values_desc misaligned_years = [(''A'', 3), (''B'', 1)]"
    by code_simp
  have x: "xaxis_categories sort_total_asc
     (launches_by_organisation_figure sort_values_desc misaligned_years)
     = [(''B'', 1), (''A'', 3)]" by code_simp
  have so: "sorted (map snd (xaxis_categories sort_total_asc
     (launches_by_organisation_figure sort_values_desc misaligned_years)))"
    by (rule t[THEN conjunct2, THEN conjunct2, THEN conjunct2, THEN conjunct2, THEN conjunct2,
        THEN conjunct2, THEN conjunct2, THEN conjunct2])
  show ?thesis by (intro conjI v x so t[THEN conjunct1])
qed

lemma key2_Some: "key2 a b = Some (x, y) \<longleftrightarrow> a = Some x \<and> b = Some y"
  by (simp add: key2_def split: option.splits)

lemma cold_war_frame_map: "cold_war_frame df = map recode_row (dropna_Date df)"
  by (simp add: cold_war_frame_def recode_cold_war_def fillna_Country_def set_Date_id
      recode_row_def Let_def)

lemma until_1991_Country [simp]: "until_1991 (r\<lparr>Country := c\<rparr>) = until_1991 r"
  by (simp add: until_1991_def Year_def)

lemma Year_Country [simp]: "Year (r\<lparr>Country := c\<rparr>) = Year r"
  by (simp add: Year_def)

lemma recode_row_cells:
  "Location (recode_row r) = Location r \<and> Date (recode_row r) = Date r \<and>
   Organisation (recode_row r) = Organisation r \<and>
   Mission_Status (recode_row r) = Mission_Status r \<and>
   Country_Code (recode_row r) = Country_Code r \<and>
   Year (recode_row r) = Year r \<and> until_1991 (recode_row r) = until_1991 r"
  by (simp add: recode_row_def Let_def Year_def until_1991_def)

lemma recode_row_Country:
  "Country (recode_row r) =
     Some (case Country r of
             None \<Rightarrow> ''Unknown''
           | Some c \<Rightarrow> if until_1991 r \<and> (c = ''Russian Federation'' \<or> c = ''Kazakhstan'')
                       then ''USSR'' else c)"
  by (simp add: recode_row_def Let_def replace_def cold_war_update_def split: option.splits)


lemma cold_war_map: "cold_war df = map recode_row (filter until_1991 (dropna_Date df))"
  by (simp add: cold_war_def cold_war_frame_map filter_map comp_def recode_row_cells)

lemma cold_war_launches_mem:
  "((y, c), n) \<in> set (cold_war_launches df) \<longleftrightarrow>
     (\<exists>r\<in>set (cold_war df). Year r = Some y \<and> Country r = Some c) \<and>
     n = length (filter (\<lambda>r. Year r = Some y \<and> Country r = Some c) (cold_war df))"
  by (simp add: cold_war_launches_def groupby_size_map_mem key2_Some)

lemma cold_war_Year: "r \<in> set (cold_war df) \<Longrightarrow> Year r = Some y \<Longrightarrow> y \<le> 1991"
  by (auto simp: cold_war_def until_1991_def)

text \<open>
  C4. The working frame of the branch has the dated rows of the loaded table, each with
  its cells but \<open>Country\<close>: up to 1991 the values Russian Federation and Kazakhstan
  become USSR, and every other value, and every value after 1991, is kept. Every row of
  the output table has a year up to 1991 and the country USA or USSR, so neither Russian
  Federation nor Kazakhstan, with the number of rows of the working frame that have this
  year and country, which is not zero.
\<close>

theorem cold_war_recoding:
  "length (cold_war_frame df) = length (dropna_Date df) \<and>
   (\<forall>i<length (dropna_Date df).
      Location (cold_war_frame df ! i) = Location (dropna_Date df ! i) \<and>
      Date (cold_war_frame df ! i) = Date (dropna_Date df ! i) \<and>
      Organisation (cold_war_frame df ! i) = Organisation (dropna_Date df ! i) \<and>
      Mission_Status (cold_war_frame df ! i) = Mission_Status (dropna_Date df ! i) \<and>
      Country_Code (cold_war_frame df ! i) = Country_Code (dropna_Date df ! i) \<and>
      (until_1991 (dropna_Date df ! i) \<and>
       (Country (dropna_Date df ! i) = Some ''Russian Federation'' \<or>
        Country (dropna_Date df ! i) = Some ''Kazakhstan'')
         \<longrightarrow> Country (cold_war_frame df ! i) = Some ''USSR'') \<and>
      (\<forall>c. Country (dropna_Date df ! i) = Some c \<and>
           (\<not> until_1991 (dropna_Date df ! i) \<or>
            (c \<noteq> ''Russian Federation'' \<and> c \<noteq> ''Kazakhstan''))
         \<longrightarrow> Country (cold_war_frame df ! i) = Some c)) \<and>
   (\<forall>p\<in>set (cold_war_launches_USA_USSR df).
      fst (fst p) \<le> 1991 \<and>
      (snd (fst p) = ''USA'' \<or> snd (fst p) = ''USSR'') \<and>
      snd (fst p) \<noteq> ''Russian Federation'' \<and> snd (fst p) \<noteq> ''Kazakhstan'' \<and>
      0 < snd p \<and>
      snd p = length (filter (\<lambda>r. until_1991 r \<and> Year r = Some (fst (fst p)) \<and>
                                  Country r = Some (snd (fst p))) (cold_war_frame df)))"
proof (intro conjI)
  show "length (cold_war_frame df) = length (dropna_Date df)"
    by (simp add: cold_war_frame_map)
next
  show "\<forall>i<length (dropna_Date df).
      Location (cold_war_frame df ! i) = Location (dropna_Date df ! i) \<and>
      Date (cold_war_frame df ! i) = Date (dropna_Date df ! i) \<and>
      Organisation (cold_war_frame df ! i) = Organisation (dropna_Date df ! i) \<and>
      Mission_Status (cold_war_frame df ! i) = Mission_Status (dropna_Date df ! i) \<and>
      Country_Code (cold_war_frame df ! i) = Country_Code (dropna_Date df ! i) \<and>
      (until_1991 (dropna_Date df ! i) \<and>
       (Country (dropna_Date df ! i) = Some ''Russian Federation'' \<or>
        Country (dropna_Date df ! i) = Some ''Kazakhstan'')
         \<longrightarrow> Country (cold_war_frame df ! i) = Some ''USSR'') \<and>
      (\<forall>c. Country (dropna_Date df ! i) = Some c \<and>
           (\<not> until_1991 (dropna_Date df ! i) \<or>
            (c \<noteq> ''Russian Federation'' \<and> c \<noteq> ''Kazakhstan''))
         \<longrightarrow> Country (cold_war_frame df ! i) = Some c)"
  proof (intro allI impI)
    fix i assume i: "i < length (dropna_Date df)"
    have n: "cold_war_frame df ! i = recode_row (dropna_Date df ! i)"
      using i by (simp add: cold_war_frame_map)
    show "Location (cold_war_frame df ! i) = Location (dropna_Date df ! i) \<and>
      Date (cold_war_frame df ! i) = Date (dropna_Date df ! i) \<and>
      Organisation (cold_war_frame df ! i) = Organisation (dropna_Date df ! i) \<and>
      Mission_Status (cold_war_frame df ! i) = Mission_Status (dropna_Date df ! i) \<and>
      Country_Code (cold_war_frame df ! i) = Country_Code (dropna_Date df ! i) \<and>
      (until_1991 (dropna_Date df ! i) \<and>
       (Country (dropna_Date df ! i) = Some ''Russian Federation'' \<or>
        Country (dropna_Date df ! i) = Some ''Kazakhstan'')
         \<longrightarrow> Country (cold_war_frame df ! i) = Some ''USSR'') \<and>
      (\<forall>c. Country (dropna_Date df ! i) = Some c \<and>
           (\<not> until_1991 (dropna_Date df ! i) \<or>
            (c \<noteq> ''Russian Federation'' \<and> c \<noteq> ''Kazakhstan''))
         \<longrightarrow> Country (cold_war_frame df ! i) = Some c)"
      unfolding n by (auto simp: recode_row_cells recode_row_Country)
  qed
next
  show "\<forall>p\<in>set (cold_war_launches_USA_USSR df).
      fst (fst p) \<le> 1991 \<and>
      (snd (fst p) = ''USA'' \<or> snd (fst p) = ''USSR'') \<and>
      snd (fst p) \<noteq> ''Russian Federation'' \<and> snd (fst p) \<noteq> ''Kazakhstan'' \<and>
      0 < snd p \<and>
      snd p = length (filter (\<lambda>r. until_1991 r \<and> Year r = Some (fst (fst p)) \<and>
                                  Country r = Some (snd (fst p))) (cold_war_frame df))"
  proof
    fix p assume p: "p \<in> set (cold_war_launches_USA_USSR df)"
    obtain y c n where pe: "p = ((y, c), n)" by (metis prod.collapse)
    from p pe have c: "c = ''USA'' \<or> c = ''USSR''"
      and m: "((y, c), n) \<in> set (cold_war_launches df)"
      by (auto simp: cold_war_launches_USA_USSR_def)
    from m obtain r where r: "r \<in> set (cold_war df)" "Year r = Some y" "Country r = Some c"
      and n: "n = length (filter (\<lambda>r. Year r = Some y \<and> Country r = Some c) (cold_war df))"
      unfolding cold_war_launches_mem by (elim conjE bexE)
    have y: "y \<le> 1991" using r(1,2) by (rule cold_war_Year)
    have "r \<in> set (filter (\<lambda>r. Year r = Some y \<and> Country r = Some c) (cold_war df))"
      using r by simp
    then have "filter (\<lambda>r. Year r = Some y \<and> Country r = Some c) (cold_war df) \<noteq> []"
      by (metis empty_iff list.set(1))
    then have pos: "0 < n" using n by simp
    have n': "n = length (filter (\<lambda>r. until_1991 r \<and> Year r = Some y \<and> Country r = Some c)
        (cold_war_frame df))"
      unfolding n cold_war_def filter_filter by (simp add: conj_commute conj_left_commute)
    from c have ne: "c \<noteq> ''Russian Federation'' \<and> c \<noteq> ''Kazakhstan''" by auto
    show "fst (fst p) \<le> 1991 \<and>
      (snd (fst p) = ''USA'' \<or> snd (fst p) = ''USSR'') \<and>
      snd (fst p) \<noteq> ''Russian Federation'' \<and> snd (fst p) \<noteq> ''Kazakhstan'' \<and>
      0 < snd p \<and>
      snd p = length (filter (\<lambda>r. until_1991 r \<and> Year r = Some (fst (fst p)) \<and>
                                  Country r = Some (snd (fst p))) (cold_war_frame df))"
      unfolding pe fst_conv snd_conv using y c ne pos n' by (intro conjI) simp_all
  qed
qed


theorem cold_war_recoding_witness:
  "(0::nat) < length (dropna_Date cold_war_rows) \<and>
   until_1991 (dropna_Date cold_war_rows ! 0) \<and>
   Country (dropna_Date cold_war_rows ! 0) = Some ''Kazakhstan'' \<and>
   Country (cold_war_frame cold_war_rows ! 0) = Some ''USSR'' \<and>
   (4::nat) < length (dropna_Date cold_war_rows) \<and>
   \<not> until_1991 (dropna_Date cold_war_rows ! 4) \<and>
   Country (dropna_Date cold_war_rows ! 4) = Some ''Kazakhstan'' \<and>
   Country (cold_war_frame cold_war_rows ! 4) = Some ''Kazakhstan'' \<and>
   ((1957, ''USSR''), 1) \<in> set (cold_war_launches_USA_USSR cold_war_rows) \<and>
   fst (fst ((1957::int, ''USSR''), 1::nat)) \<le> 1991"
proof -
  note t = cold_war_recoding[of cold_war_rows]
  have i0: "(0::nat) < length (dropna_Date cold_war_rows)" by code_simp
  have u0: "until_1991 (dropna_Date cold_war_rows ! 0)" by code_simp
  have c0: "Country (dropna_Date cold_war_rows ! 0) = Some ''Kazakhstan''" by code_simp
  have i4: "(4::nat) < length (dropna_Date cold_war_rows)" by code_simp
  have u4: "\<not> until_1991 (dropna_Date cold_war_rows ! 4)" by code_simp
  have c4: "Country (dropna_Date cold_war_rows ! 4) = Some ''Kazakhstan''" by code_simp
  have m: "((1957, ''USSR''), 1) \<in> set (cold_war_launches_USA_USSR cold_war_rows)" by code_simp
  note r0 = t[THEN conjunct2, THEN conjunct1, rule_format, OF i0]
  note r4 = t[THEN conjunct2, THEN conjunct1, rule_format, OF i4]
  have a: "Country (cold_war_frame cold_war_rows ! 0) = Some ''USSR''"
    using r0 u0 c0 by simp
  have b: "Country (cold_war_frame cold_war_rows ! 4) = Some ''Kazakhstan''"
    using r4 u4 c4 by simp
  have y: "fst (fst ((1957::int, ''USSR''), 1::nat)) \<le> 1991"
    using t[THEN conjunct2, THEN conjunct2, rule_format, OF m] by (rule conjunct1)
  show ?thesis by (intro conjI i0 u0 c0 a i4 u4 c4 b m y)
qed

lemma recode_row_USA_USSR:
  assumes "until_1991 q"
  shows "(Country (recode_row q) = Some ''USA'' \<or> Country (recode_row q) = Some ''USSR'') \<longleftrightarrow>
     (Country q = Some ''USA'' \<or> Country q = Some ''USSR'' \<or>
      Country q = Some ''Russian Federation'' \<or> Country q = Some ''Kazakhstan'')"
proof (cases "Country q")
  case None
  then show ?thesis by (simp add: recode_row_Country)
next
  case (Some c)
  show ?thesis
  proof (cases "c = ''Russian Federation'' \<or> c = ''Kazakhstan''")
    case True
    then have "Country (recode_row q) = Some ''USSR''"
      using Some assms by (simp add: recode_row_Country)
    then show ?thesis using True Some by simp
  next
    case False
    then have "Country (recode_row q) = Some c"
      using Some assms by (simp add: recode_row_Country)
    then show ?thesis using False Some by simp
  qed
qed

lemma USA_USSR_nonempty_iff:
  "cold_war_launches_USA_USSR df \<noteq> [] \<longleftrightarrow>
     (\<exists>r\<in>set df. Date r \<noteq> None \<and> until_1991 r \<and>
        (Country r = Some ''USA'' \<or> Country r = Some ''USSR'' \<or>
         Country r = Some ''Russian Federation'' \<or> Country r = Some ''Kazakhstan''))"
proof -
  have "cold_war_launches_USA_USSR df \<noteq> [] \<longleftrightarrow>
      (\<exists>p\<in>set (cold_war_launches df). snd (fst p) = ''USA'' \<or> snd (fst p) = ''USSR'')"
    by (simp add: cold_war_launches_USA_USSR_def filter_empty_conv)
  also have "\<dots> \<longleftrightarrow> (\<exists>y c n. ((y, c), n) \<in> set (cold_war_launches df) \<and> (c = ''USA'' \<or> c = ''USSR''))"
    by (simp add: Bex_def)
  also have "\<dots> \<longleftrightarrow> (\<exists>r\<in>set (cold_war df). \<exists>y c. Year r = Some y \<and> Country r = Some c \<and>
      (c = ''USA'' \<or> c = ''USSR''))"
    unfolding cold_war_launches_mem by (simp add: Bex_def) metis
  also have "\<dots> \<longleftrightarrow> (\<exists>q\<in>set (filter until_1991 (dropna_Date df)).
      Country (recode_row q) = Some ''USA'' \<or> Country (recode_row q) = Some ''USSR'')"
  proof -
    have yr: "\<exists>y. Year (recode_row q) = Some y" if "until_1991 q" for q
      using that by (simp add: recode_row_cells until_1991_def split: option.splits)
    show ?thesis
      unfolding cold_war_map using yr by (auto simp: recode_row_cells)
  qed
  also have "\<dots> \<longleftrightarrow> (\<exists>r\<in>set df. Date r \<noteq> None \<and> until_1991 r \<and>
        (Country r = Some ''USA'' \<or> Country r = Some ''USSR'' \<or>
         Country r = Some ''Russian Federation'' \<or> Country r = Some ''Kazakhstan''))"
    (is "?L \<longleftrightarrow> ?R")
  proof
    assume ?L
    then obtain q where q: "q \<in> set (filter until_1991 (dropna_Date df))"
      and c: "Country (recode_row q) = Some ''USA'' \<or> Country (recode_row q) = Some ''USSR''"
      by (elim bexE)
    from q have m: "q \<in> set df" and d: "Date q \<noteq> None" and u: "until_1991 q"
      by (simp_all add: dropna_Date_def del: not_None_eq)
    from c u have "Country q = Some ''USA'' \<or> Country q = Some ''USSR'' \<or>
         Country q = Some ''Russian Federation'' \<or> Country q = Some ''Kazakhstan''"
      by (simp only: recode_row_USA_USSR)
    with m d u show ?R by (intro bexI[of _ q] conjI)
  next
    assume ?R
    then obtain r where m: "r \<in> set df" and d: "Date r \<noteq> None" and u: "until_1991 r"
      and c: "Country r = Some ''USA'' \<or> Country r = Some ''USSR'' \<or>
         Country r = Some ''Russian Federation'' \<or> Country r = Some ''Kazakhstan''"
      by (elim bexE conjE)
    from m d u have q: "r \<in> set (filter until_1991 (dropna_Date df))"
      by (simp add: dropna_Date_def del: not_None_eq)
    from c u have "Country (recode_row r) = Some ''USA'' \<or> Country (recode_row r) = Some ''USSR''"
      by (simp only: recode_row_USA_USSR)
    with q show ?L by (intro bexI[of _ r])
  qed
  finally show ?thesis .
qed

text \<open>
  C9. The view writes the no-data text, and shows no chart, when the filtered table is
  empty; otherwise it shows the pie chart of the table and does not write the text. The
  table is empty exactly when no dated row up to 1991 has one of the countries USA, USSR,
  Russian Federation and Kazakhstan.
\<close>

theorem cold_war_no_data_signal:
  "(cold_war_launches_USA_USSR df = [] \<longrightarrow>
      cold_war_view df =
        [Write ''### Cold War Space Race: USA vs USSR'',
         Write ''No data available for USA and USSR launches during the Cold War.'']) \<and>
   (cold_war_launches_USA_USSR df \<noteq> [] \<longrightarrow>
      cold_war_view df =
        [Write ''### Cold War Space Race: USA vs USSR'',
         Show_Chart (Pie (cold_war_launches_USA_USSR df))] \<and>
      Write ''No data available for USA and USSR launches during the Cold War.''
        \<notin> set (cold_war_view df)) \<and>
   (cold_war_launches_USA_USSR df = [] \<longleftrightarrow>
      \<not> (\<exists>r\<in>set df. Date r \<noteq> None \<and> until_1991 r \<and>
            (Country r = Some ''USA'' \<or> Country r = Some ''USSR'' \<or>
             Country r = Some ''Russian Federation'' \<or> Country r = Some ''Kazakhstan'')))"
proof (intro conjI)
  show "cold_war_launches_USA_USSR df = [] \<longrightarrow>
      cold_war_view df =
        [Write ''### Cold War Space Race: USA vs USSR'',
         Write ''No data available for USA and USSR launches during the Cold War.'']"
    by (simp add: cold_war_view_def)
  show "cold_war_launches_USA_USSR df \<noteq> [] \<longrightarrow>
      cold_war_view df =
        [Write ''### Cold War Space Race: USA vs USSR'',
         Show_Chart (Pie (cold_war_launches_USA_USSR df))] \<and>
      Write ''No data available for USA and USSR launches during the Cold War.''
        \<notin> set (cold_war_view df)"
    by (simp add: cold_war_view_def)
  show "cold_war_launches_USA_USSR df = [] \<longleftrightarrow>
      \<not> (\<exists>r\<in>set df. Date r \<noteq> None \<and> until_1991 r \<and>
            (Country r = Some ''USA'' \<or> Country r = Some ''USSR'' \<or>
             Country r = Some ''Russian Federation'' \<or> Country r = Some ''Kazakhstan''))"
  proof -
    have neg: "\<And>P Q. (\<not> P) = Q \<Longrightarrow> P = (\<not> Q)" by blast
    show ?thesis by (rule neg[OF USA_USSR_nonempty_iff])
  qed
qed

theorem cold_war_no_data_signal_witness:
  "cold_war_launches_USA_USSR china_rows = [] \<and>
   cold_war_view china_rows =
     [Write ''### Cold War Space Race: USA vs USSR'',
      Write ''No data available for USA and USSR launches during the Cold War.''] \<and>
   cold_war_launches_USA_USSR cold_war_rows \<noteq> [] \<and>
   cold_war_view cold_war_rows =
     [Write ''### Cold War Space Race: USA vs USSR'',
      Show_Chart (Pie (cold_war_launches_USA_USSR cold_war_rows))]"
proof -
  have e: "cold_war_launches_USA_USSR china_rows = []" by code_simp
  have n: "cold_war_launches_USA_USSR cold_war_rows \<noteq> []" by code_simp
  have a: "cold_war_view china_rows =
     [Write ''### Cold War Space Race: USA vs USSR'',
      Write ''No data available for USA and USSR launches during the Cold War.'']"
    using cold_war_no_data_signal[of china_rows, THEN conjunct1] e by (rule mp)
  have b: "cold_war_view cold_war_rows =
     [Write ''### Cold War Space Race: USA vs USSR'',
      Show_Chart (Pie (cold_war_launches_USA_USSR cold_war_rows))]"
    using cold_war_no_data_signal[of cold_war_rows, THEN conjunct2, THEN conjunct1, THEN mp, OF n]
    by (rule conjunct1)
  show ?thesis by (intro conjI e a n b)
qed

lemma rolling_mean_length: "length (rolling_mean w xs) = length xs"
  by (simp add: rolling_mean_def)

lemma rolling_mean_nth:
  "i < length xs \<Longrightarrow>
     rolling_mean w xs ! i =
       (if i + 1 < w then None else Some (sum_list (take w (drop (i + 1 - w) xs)) / of_nat w))"
  by (simp add: rolling_mean_def)

lemma sum_list_take_drop:
  fixes xs :: "rat list"
  assumes "k + w \<le> length xs"
  shows "sum_list (take w (drop k xs)) = (\<Sum>j = k..<k + w. xs ! j)"
proof -
  have len: "length (take w (drop k xs)) = w" using assms by simp
  have "sum_list (take w (drop k xs)) = (\<Sum>i = 0..<w. take w (drop k xs) ! i)"
    using sum_list_sum_nth[of "take w (drop k xs)"] len by simp
  also have "\<dots> = (\<Sum>i = 0..<w. xs ! (i + k))"
    using assms by (intro sum.cong) (simp_all add: add.commute)
  also have "\<dots> = (\<Sum>j = 0 + k..<w + k. xs ! j)"
    by (rule sum.shift_bounds_nat_ivl[symmetric])
  finally show ?thesis by (simp add: add.commute)
qed

lemma trailing_window:
  fixes xs :: "rat list"
  assumes "30 \<le> i" and "i \<le> length xs"
  shows "sum_list (take 30 (drop (i - 30) xs)) = (\<Sum>j = i - 29..i. xs ! (j - 1))"
proof -
  have "sum_list (take 30 (drop (i - 30) xs)) = (\<Sum>j = i - 30..<i - 30 + 30. xs ! j)"
    using assms by (intro sum_list_take_drop) simp
  also have "\<dots> = (\<Sum>j = i - 30..<i. xs ! j)" using assms by simp
  also have "\<dots> = (\<Sum>j = (i - 30) + 1..<i + 1. xs ! (j - 1))"
    using sum.shift_bounds_nat_ivl[of "\<lambda>j. xs ! (j - 1)" "i - 30" 1 i] by simp
  also have "\<dots> = (\<Sum>j = i - 29..i. xs ! (j - 1))"
  proof -
    have "(i - 30) + 1 = i - 29" using assms by simp
    moreover have "{i - 29..<i + 1} = {i - 29..i}" by auto
    ultimately show ?thesis by simp
  qed
  finally show ?thesis .
qed

lemma launches_month_on_month_mem:
  "(d, n) \<in> set (launches_month_on_month df) \<longleftrightarrow>
     (\<exists>r\<in>set df. Date r = Some d) \<and> n = length (filter (\<lambda>r. Date r = Some d) df)"
proof -
  have f: "filter (\<lambda>r. Date r = Some d) (dropna_Date df) = filter (\<lambda>r. Date r = Some d) df"
    unfolding dropna_Date_def filter_filter by (rule filter_cong) (auto simp del: not_None_eq)
  have e: "(\<exists>r\<in>set (dropna_Date df). Date r = Some d) \<longleftrightarrow> (\<exists>r\<in>set df. Date r = Some d)"
    by (auto simp: dropna_Date_def simp del: not_None_eq)
  show ?thesis
    unfolding launches_month_on_month_def set_Date_id groupby_size_map_mem f e ..
qed

text \<open>
  C6. The monthly table has one row per date that occurs in the frame, in ascending order
  of the date, with the number of rows of that date. With the positions counted from 1,
  the rolling average has no value at the positions below 30 and, at every position
  \<open>i\<close> from 30 on, the sum of the counts at the positions \<open>i - 29\<close> to \<open>i\<close> divided by 30.
  The mean is taken in exact arithmetic.
\<close>

theorem rolling_average_of_thirty_dates:
  "sorted (map fst (launches_month_on_month df)) \<and>
   distinct (map fst (launches_month_on_month df)) \<and>
   (\<forall>d n. (d, n) \<in> set (launches_month_on_month df) \<longleftrightarrow>
      (\<exists>r\<in>set df. Date r = Some d) \<and> n = length (filter (\<lambda>r. Date r = Some d) df)) \<and>
   length (Rolling_Average df) = length (launches_month_on_month df) \<and>
   (\<forall>i. 1 \<le> i \<and> i \<le> length (launches_month_on_month df) \<longrightarrow>
      (i < 30 \<longrightarrow> Rolling_Average df ! (i - 1) = None) \<and>
      (30 \<le> i \<longrightarrow>
         Rolling_Average df ! (i - 1) =
           Some ((\<Sum>j = i - 29..i. of_nat (snd (launches_month_on_month df ! (j - 1)))) / 30)))"
proof (intro conjI allI impI)
  show "sorted (map fst (launches_month_on_month df))"
    unfolding launches_month_on_month_def by (rule groupby_size_sorted)
  show "distinct (map fst (launches_month_on_month df))"
    unfolding launches_month_on_month_def by (rule groupby_size_distinct)
  show "(d, n) \<in> set (launches_month_on_month df) \<longleftrightarrow>
      (\<exists>r\<in>set df. Date r = Some d) \<and> n = length (filter (\<lambda>r. Date r = Some d) df)" for d n
    by (rule launches_month_on_month_mem)
  show "length (Rolling_Average df) = length (launches_month_on_month df)"
    by (simp add: Rolling_Average_def rolling_mean_length)
next
  fix i assume "1 \<le> i \<and> i \<le> length (launches_month_on_month df)" and s: "i < 30"
  then have i: "1 \<le> i" "i \<le> length (launches_month_on_month df)" by simp_all
  then have "i - 1 < length (map (\<lambda>p. (of_nat (snd p) :: rat)) (launches_month_on_month df))"
    by simp
  then show "Rolling_Average df ! (i - 1) = None"
    unfolding Rolling_Average_def using i s by (simp add: rolling_mean_nth)
next
  fix i assume "1 \<le> i \<and> i \<le> length (launches_month_on_month df)" and s: "30 \<le> i"
  then have i: "1 \<le> i" "i \<le> length (launches_month_on_month df)" by simp_all
  define xs :: "rat list" where "xs = map (\<lambda>p. of_nat (snd p)) (launches_month_on_month df)"
  have l: "length xs = length (launches_month_on_month df)" by (simp add: xs_def)
  have "Rolling_Average df ! (i - 1) = Some (sum_list (take 30 (drop (i - 30) xs)) / 30)"
    unfolding Rolling_Average_def xs_def[symmetric] using i s l by (simp add: rolling_mean_nth)
  also have "sum_list (take 30 (drop (i - 30) xs)) = (\<Sum>j = i - 29..i. xs ! (j - 1))"
    using s i l by (intro trailing_window) simp_all
  also have "\<dots> = (\<Sum>j = i - 29..i. of_nat (snd (launches_month_on_month df ! (j - 1))))"
  proof (rule sum.cong)
    fix j assume "j \<in> {i - 29..i}"
    then have "i - 29 \<le> j" and "j \<le> i" by simp_all
    with i s have "j - 1 < length (launches_month_on_month df)" by linarith
    then show "xs ! (j - 1) = of_nat (snd (launches_month_on_month df ! (j - 1)))"
      by (simp add: xs_def)
  qed simp
  finally show "Rolling_Average df ! (i - 1) =
           Some ((\<Sum>j = i - 29..i. of_nat (snd (launches_month_on_month df ! (j - 1)))) / 30)" .
qed


theorem rolling_average_of_thirty_dates_witness:
  "(1::nat) \<le> 31 \<and> 31 \<le> length (launches_month_on_month thirty_one_days) \<and>
   Rolling_Average thirty_one_days ! (29 - 1) = None \<and>
   Rolling_Average thirty_one_days ! (31 - 1) =
     Some ((\<Sum>j = 31 - 29..31. of_nat (snd (launches_month_on_month thirty_one_days ! (j - 1)))) / 30) \<and>
   Rolling_Average thirty_one_days ! 30 = Some (31 / 30) \<and>
   snd (launches_month_on_month thirty_one_days ! 30) = 2"
proof -
  have l: "length (launches_month_on_month thirty_one_days) = 31" by code_simp
  note t = rolling_average_of_thirty_dates[of thirty_one_days, THEN conjunct2, THEN conjunct2,
      THEN conjunct2, THEN conjunct2, rule_format]
  have a: "Rolling_Average thirty_one_days ! (29 - 1) = None"
    using t[of 29] l by simp
  have b: "Rolling_Average thirty_one_days ! (31 - 1) =
     Some ((\<Sum>j = 31 - 29..31. of_nat (snd (launches_month_on_month thirty_one_days ! (j - 1)))) / 30)"
    using t[of 31] l by simp
  have c: "Rolling_Average thirty_one_days ! 30 = Some (31 / 30)" by code_simp
  have d: "snd (launches_month_on_month thirty_one_days ! 30) = 2" by code_simp
  show ?thesis using l a b c d by simp
qed

lemma filter_eq_distinct:
  "distinct xs \<Longrightarrow> filter (\<lambda>x. x = k) xs = (if k \<in> set xs then [k] else [])"
  by (induction xs) auto

lemma merge_inner_distinct:
  "distinct right \<Longrightarrow> merge_inner left right = filter (\<lambda>p. snd (fst p) \<in> set right) left"
  by (induction left) (simp_all add: merge_inner_def filter_eq_distinct)

lemma launch_count_sum_keys:
  "map fst (launch_count_sum t) = sort (remdups (map (\<lambda>p. snd (fst p)) t))"
  by (simp add: launch_count_sum_def comp_def)

lemma launch_count_sum_mem:
  "(org, n) \<in> set (launch_count_sum t) \<longleftrightarrow>
     org \<in> (\<lambda>p. snd (fst p)) ` set t \<and> n = org_total t org"
  by (auto simp: launch_count_sum_def org_total_def)

lemma sum_counts_filter:
  assumes "distinct ks" and "set ks = set vs"
  shows "sum_list (map (count_list vs) (filter P ks)) = length (filter P vs)"
proof -
  have "sum_list (map (count_list vs) (filter P ks)) = sum (count_list vs) (set (filter P ks))"
    using assms(1) by (simp add: sum_list_distinct_conv_sum_set)
  also have "\<dots> = sum (count (mset vs)) {k \<in> set vs. P k}"
    using assms(2) by (simp add: count_mset)
  also have "\<dots> = sum (count (filter_mset P (mset vs))) (set_mset (filter_mset P (mset vs)))"
    by (intro sum.cong) auto
  also have "\<dots> = size (filter_mset P (mset vs))"
    by (simp add: size_multiset_overloaded_eq)
  also have "\<dots> = length (filter P vs)"
    by (metis mset_filter size_mset)
  finally show ?thesis .
qed

lemma length_filter_present_map:
  "length (filter Q (present (map f xs))) = length (filter (\<lambda>x. \<exists>k. f x = Some k \<and> Q k) xs)"
proof (induction xs)
  case Nil
  then show ?case by simp
next
  case (Cons x xs)
  then show ?case by (cases "f x") auto
qed

lemma org_total_groupby:
  "org_total (groupby_size (map f xs)) org
     = length (filter (\<lambda>x. \<exists>k. f x = Some k \<and> snd k = org) xs)"
proof -
  define vs where "vs = present (map f xs)"
  define ks where "ks = sort (remdups vs)"
  have d: "distinct ks" and s: "set ks = set vs" by (simp_all add: ks_def)
  have "org_total (groupby_size (map f xs)) org
      = sum_list (map (count_list vs) (filter (\<lambda>k. snd k = org) ks))"
    by (simp add: org_total_def groupby_size_def Let_def vs_def ks_def filter_map comp_def)
  also have "\<dots> = length (filter (\<lambda>k. snd k = org) vs)"
    using d s by (rule sum_counts_filter)
  also have "\<dots> = length (filter (\<lambda>x. \<exists>k. f x = Some k \<and> snd k = org) xs)"
    unfolding vs_def by (rule length_filter_present_map)
  finally show ?thesis .
qed

lemma org_total_rows:
  "org_total (launches_by_year_org df) org
     = length (filter (\<lambda>r. Date r \<noteq> None \<and> Organisation r = Some org) df)"
proof -
  have "(\<exists>k. key2 (Year r) (Organisation r) = Some k \<and> snd k = org) \<longleftrightarrow>
        (Date r \<noteq> None \<and> Organisation r = Some org)" for r :: mission
    by (cases "Date r"; cases "Organisation r") (simp_all add: key2_def Year_def)
  then show ?thesis
    unfolding launches_by_year_org_def org_total_groupby set_Date_id dropna_Date_def filter_filter
    by (simp add: conj_commute del: not_None_eq)
qed


lemma sorts_descending_length: "sorts_descending srt \<Longrightarrow> length (srt xs) = length xs"
  unfolding sorts_descending_def by (metis size_mset)

lemma launches_by_year_org_mem:
  "((y, org), n) \<in> set (launches_by_year_org df) \<longleftrightarrow>
     (\<exists>r\<in>set df. Year r = Some y \<and> Organisation r = Some org) \<and>
     n = length (filter (\<lambda>r. Year r = Some y \<and> Organisation r = Some org) df)"
proof -
  have f: "filter (\<lambda>r. Year r = Some y \<and> Organisation r = Some org) (dropna_Date df)
      = filter (\<lambda>r. Year r = Some y \<and> Organisation r = Some org) df"
    unfolding dropna_Date_def filter_filter
    by (rule filter_cong) (auto simp: Year_def simp del: not_None_eq)
  have e: "(\<exists>r\<in>set (dropna_Date df). Year r = Some y \<and> Organisation r = Some org) \<longleftrightarrow>
      (\<exists>r\<in>set df. Year r = Some y \<and> Organisation r = Some org)" (is "?L \<longleftrightarrow> ?R")
  proof
    assume ?L
    then obtain r where m: "r \<in> set (dropna_Date df)"
      and q: "Year r = Some y \<and> Organisation r = Some org" by (elim bexE)
    from m have "r \<in> set df" by (simp add: dropna_Date_def del: not_None_eq)
    with q show ?R by (intro bexI[of _ r])
  next
    assume ?R
    then obtain r where m: "r \<in> set df"
      and q: "Year r = Some y \<and> Organisation r = Some org" by (elim bexE)
    from q have "Date r \<noteq> None" by (cases "Date r") (simp_all add: Year_def)
    with m have "r \<in> set (dropna_Date df)" by (simp add: dropna_Date_def del: not_None_eq)
    with q show ?L by (intro bexI[of _ r])
  qed
  show ?thesis
    unfolding launches_by_year_org_def set_Date_id groupby_size_map_mem key2_Some f e ..
qed

text \<open>
  C7. The selected organisations are distinct, ten of them or all when there are fewer,
  each with its total over all years, which is its number of dated rows; the total of
  every organisation that is not selected is at most the total of each selected one,
  whatever the sort does with equal totals. The output is the table of counts per year
  and organisation restricted to the selected organisations, so it keeps each of their
  years, and that table has one row for every year and organisation with a dated row.
\<close>

theorem top10_organizations_dominate:
  assumes "sorts_descending srt"
  shows "distinct (map fst (top10_organizations srt df)) \<and>
         length (top10_organizations srt df)
           = min 10 (card ((\<lambda>p. snd (fst p)) ` set (launches_by_year_org df))) \<and>
         (\<forall>s\<in>set (top10_organizations srt df).
            fst s \<in> (\<lambda>p. snd (fst p)) ` set (launches_by_year_org df) \<and>
            snd s = org_total (launches_by_year_org df) (fst s) \<and>
            (\<forall>org\<in>(\<lambda>p. snd (fst p)) ` set (launches_by_year_org df).
               org \<notin> fst ` set (top10_organizations srt df)
                 \<longrightarrow> org_total (launches_by_year_org df) org \<le> snd s)) \<and>
         (\<forall>org. org_total (launches_by_year_org df) org
                  = length (filter (\<lambda>r. Date r \<noteq> None \<and> Organisation r = Some org) df)) \<and>
         launches_top10_organizations srt df
           = filter (\<lambda>p. snd (fst p) \<in> fst ` set (top10_organizations srt df))
               (launches_by_year_org df) \<and>
         distinct (map fst (launches_by_year_org df)) \<and>
         (\<forall>y org n. ((y, org), n) \<in> set (launches_by_year_org df) \<longleftrightarrow>
            (\<exists>r\<in>set df. Year r = Some y \<and> Organisation r = Some org) \<and>
            n = length (filter (\<lambda>r. Year r = Some y \<and> Organisation r = Some org) df))"
proof -
  define T where "T = launches_by_year_org df"
  define totals where "totals = launch_count_sum T"
  define S where "S = srt totals"
  define orgs where "orgs = (\<lambda>p. snd (fst p)) ` set T"
  have sel: "top10_organizations srt df = take 10 S"
    by (simp add: top10_organizations_def S_def totals_def T_def)
  have dt: "distinct (map fst totals)"
    by (simp add: totals_def launch_count_sum_keys)
  have "mset (map fst S) = mset (map fst totals)"
    unfolding S_def by (rule sorts_descending_keys[OF assms])
  then have dS: "distinct (map fst S)" using dt by (metis mset_eq_imp_distinct_iff)
  have d1: "distinct (map fst (take 10 S))"
    using dS by (simp add: take_map[symmetric])
  have setS: "set S = set totals"
    unfolding S_def by (rule sorts_descending_set[OF assms])
  have "length totals = card orgs"
    unfolding totals_def orgs_def
    using length_map[of fst "launch_count_sum T"]
    by (simp only: launch_count_sum_keys length_sort length_remdups_card_conv set_map)
  then have lS: "length S = card orgs"
    unfolding S_def by (simp add: sorts_descending_length[OF assms])
  have l1: "length (take 10 S) = min 10 (card orgs)" using lS by simp
  have srtd: "sorted_wrt (\<lambda>a b. snd b \<le> snd a) (take 10 S @ drop 10 S)"
    unfolding append_take_drop_id S_def by (rule sorts_descending_sorted[OF assms])
  have dom: "\<forall>s\<in>set (take 10 S).
            fst s \<in> orgs \<and> snd s = org_total T (fst s) \<and>
            (\<forall>org\<in>orgs. org \<notin> fst ` set (take 10 S) \<longrightarrow> org_total T org \<le> snd s)"
  proof (intro ballI conjI impI)
    fix s assume s: "s \<in> set (take 10 S)"
    then have "s \<in> set totals" using setS by (metis in_set_takeD)
    then have m: "(fst s, snd s) \<in> set (launch_count_sum T)" by (simp add: totals_def)
    show "fst s \<in> orgs" using m unfolding launch_count_sum_mem orgs_def by (rule conjunct1)
    show "snd s = org_total T (fst s)" using m unfolding launch_count_sum_mem by (rule conjunct2)
    fix org assume o: "org \<in> orgs" and n: "org \<notin> fst ` set (take 10 S)"
    from o have "(org, org_total T org) \<in> set totals"
      unfolding totals_def launch_count_sum_mem orgs_def by simp
    then have "(org, org_total T org) \<in> set (take 10 S) \<union> set (drop 10 S)"
      using setS by (metis append_take_drop_id set_append)
    moreover have "(org, org_total T org) \<notin> set (take 10 S)"
      using n by (metis fst_conv image_eqI)
    ultimately have "(org, org_total T org) \<in> set (drop 10 S)" by simp
    then have dr: "(org, org_total T org) \<in> set (drop 10 S)" .
    have "\<forall>x\<in>set (take 10 S). \<forall>y\<in>set (drop 10 S). snd y \<le> snd x"
      by (rule srtd[unfolded sorted_wrt_append, THEN conjunct2, THEN conjunct2])
    from this[rule_format, OF s dr] show "org_total T org \<le> snd s" by simp
  qed
  have tot: "\<forall>org. org_total T org
                  = length (filter (\<lambda>r. Date r \<noteq> None \<and> Organisation r = Some org) df)"
    unfolding T_def by (intro allI org_total_rows)
  have out: "launches_top10_organizations srt df
           = filter (\<lambda>p. snd (fst p) \<in> fst ` set (take 10 S)) T"
    unfolding launches_top10_organizations_def sel T_def[symmetric]
    using merge_inner_distinct[OF d1, of T] by simp
  have dT: "distinct (map fst T)"
    unfolding T_def launches_by_year_org_def by (rule groupby_size_distinct)
  have rows: "\<forall>y org n. ((y, org), n) \<in> set T \<longleftrightarrow>
            (\<exists>r\<in>set df. Year r = Some y \<and> Organisation r = Some org) \<and>
            n = length (filter (\<lambda>r. Year r = Some y \<and> Organisation r = Some org) df)"
    unfolding T_def by (intro allI launches_by_year_org_mem)
  show ?thesis
    unfolding sel T_def[symmetric] orgs_def[symmetric]
    by (intro conjI d1 l1 dom tot out dT rows)
qed


theorem top10_organizations_dominate_witness:
  "length (top10_organizations sort_values_desc eleven_orgs) = 10 \<and>
   (''A'', 2) \<in> set (top10_organizations sort_values_desc eleven_orgs) \<and>
   ''K'' \<in> (\<lambda>p. snd (fst p)) ` set (launches_by_year_org eleven_orgs) \<and>
   ''K'' \<notin> fst ` set (top10_organizations sort_values_desc eleven_orgs) \<and>
   org_total (launches_by_year_org eleven_orgs) ''K'' \<le> snd (''A'', 2::nat) \<and>
   ((2001, ''K''), 1) \<notin> set (launches_top10_organizations sort_values_desc eleven_orgs) \<and>
   ((2002, ''A''), 1) \<in> set (launches_top10_organizations sort_values_desc eleven_orgs)"
proof -
  note t = top10_organizations_dominate[OF sort_values_desc_ok, of eleven_orgs]
  have l: "length (top10_organizations sort_values_desc eleven_orgs) = 10" by code_simp
  have a: "(''A'', 2) \<in> set (top10_organizations sort_values_desc eleven_orgs)" by code_simp
  have k: "''K'' \<in> (\<lambda>p. snd (fst p)) ` set (launches_by_year_org eleven_orgs)" by code_simp
  have n: "''K'' \<notin> fst ` set (top10_organizations sort_values_desc eleven_orgs)" by code_simp
  have o1: "((2001, ''K''), 1) \<notin> set (launches_top10_organizations sort_values_desc eleven_orgs)"
    by code_simp
  have o2: "((2002, ''A''), 1) \<in> set (launches_top10_organizations sort_values_desc eleven_orgs)"
    by code_simp
  note d = t[THEN conjunct2, THEN conjunct2, THEN conjunct1, rule_format, OF a]
  have le: "org_total (launches_by_year_org eleven_orgs) ''K'' \<le> snd (''A'', 2::nat)"
    by (rule d[THEN conjunct2, THEN conjunct2, rule_format, OF k n])
  show ?thesis by (intro conjI l a k n le o1 o2)
qed

section \<open>Properties of the session\<close>

lemma modify_set_Date: "modify a set_Date s = s"
  by (simp add: modify_def frame_def set_Date_id list_update_beyond)

lemma frame_new: "frame (s\<lparr>heap := heap s @ [df]\<rparr>) (length (heap s)) = df"
  by (simp add: frame_def)

lemma modify_new:
  "modify (length (heap s)) f (s\<lparr>heap := heap s @ [df]\<rparr>) = s\<lparr>heap := heap s @ [f df]\<rparr>"
  by (simp add: modify_def frame_def)

lemma run_branch_view:
  "fst (run_branch srt sel a s) = view srt sel (frame s a)"
proof (cases sel)
  case Launches_by_Organisation
  then show ?thesis
    by (simp add: no_of_launches_per_company_def launches_by_organisation_figure_def)
next
  case Launches_by_Country
  then show ?thesis by (simp add: launches_by_country_def)
next
  case Launches_Over_Time
  then show ?thesis
    by (simp add: modify_set_Date alloc_def frame_new Let_def launches_per_year_def
        launches_month_on_month_def Rolling_Average_def set_Date_id)
next
  case Mission_Success_and_Failures
  then show ?thesis
    by (simp add: modify_set_Date alloc_def frame_new Let_def successful_missions_def
        failed_missions_def mission_failures_year_on_year_def mission_status_year_on_year_def
        set_Date_id)
next
  case Cold_War_Space_Race
  then show ?thesis
    by (simp add: modify_set_Date alloc_def frame_new modify_new Let_def cold_war_view_def
        cold_war_launches_USA_USSR_def cold_war_launches_def cold_war_def cold_war_frame_def
        set_Date_id)
next
  case Top_Organization_per_Year
  then show ?thesis
    by (simp add: modify_set_Date alloc_def frame_new Let_def launches_top10_organizations_def
        top10_organizations_def launches_by_year_org_def set_Date_id)
next
  case Mission_Failures_Over_Time
  then show ?thesis by simp
qed

lemma run_branch_heap:
  "cache (snd (run_branch srt sel a s)) = cache s \<and>
   (\<exists>fs. heap (snd (run_branch srt sel a s)) = heap s @ fs)"
proof (cases sel)
  case Cold_War_Space_Race
  then show ?thesis
    by (simp add: modify_set_Date alloc_def modify_new Let_def)
qed (simp_all add: modify_set_Date alloc_def Let_def)

lemma caches_extend:
  assumes "caches df s" and "cache s' = cache s" and "heap s' = heap s @ fs"
  shows "caches df s'"
  using assms by (auto simp: caches_def nth_append)

lemma load_data_cached_ok:
  assumes "load_data get csv = Inr df" and "caches df s"
  shows "\<exists>a s1. load_data_cached copies get csv s = Inr (a, s1) \<and> frame s1 a = df \<and>
           caches df s1 \<and> cache s1 \<noteq> None"
proof (cases "cache s")
  case None
  then show ?thesis
    using assms(1)
    by (cases copies) (simp_all add: load_data_cached_def alloc_def frame_def caches_def nth_append)
next
  case (Some c)
  with assms(2) have c: "c < length (heap s)" "heap s ! c = df" by (simp_all add: caches_def)
  then show ?thesis
    using Some assms(2)
    by (cases copies) (auto simp: load_data_cached_def alloc_def frame_def caches_def nth_append)
qed

lemma run_script_ok:
  assumes "load_data get csv = Inr df" and "caches df s"
  shows "fst (run_script copies get srt csv sel s) = Inr (view srt sel df) \<and>
         caches df (snd (run_script copies get srt csv sel s)) \<and>
         cache (snd (run_script copies get srt csv sel s)) \<noteq> None"
proof -
  obtain a s1 where l: "load_data_cached copies get csv s = Inr (a, s1)"
    and f: "frame s1 a = df" and c: "caches df s1" and n: "cache s1 \<noteq> None"
    using load_data_cached_ok[OF assms] by blast
  obtain evs s2 where b: "run_branch srt sel a s1 = (evs, s2)" by (cases "run_branch srt sel a s1")
  have e: "evs = view srt sel df" using run_branch_view[of srt sel a s1] b f by simp
  from run_branch_heap[of srt sel a s1] b obtain fs
    where h: "cache s2 = cache s1" "heap s2 = heap s1 @ fs" by auto
  have r: "run_script copies get srt csv sel s = (Inr evs, s2)"
    by (simp add: run_script_def l b)
  show ?thesis unfolding r using e caches_extend[OF c h] h(1) n by simp
qed

lemma run_session_ok:
  assumes "load_data get csv = Inr df" and "caches df s"
  shows "fst (run_session copies get srt csv sels s) = map (\<lambda>sel. Inr (view srt sel df)) sels \<and>
         caches df (snd (run_session copies get srt csv sels s)) \<and>
         (sels \<noteq> [] \<longrightarrow> cache (snd (run_session copies get srt csv sels s)) \<noteq> None)"
  using assms(2)
proof (induction sels arbitrary: s)
  case Nil
  then show ?case by simp
next
  case (Cons sel sels)
  obtain out s1 where r: "run_script copies get srt csv sel s = (out, s1)"
    by (cases "run_script copies get srt csv sel s")
  from run_script_ok[OF assms(1) Cons.prems, of copies srt sel] r
  have o: "out = Inr (view srt sel df)" and c: "caches df s1" and n: "cache s1 \<noteq> None" by simp_all
  obtain outs s2 where q: "run_session copies get srt csv sels s1 = (outs, s2)"
    by (cases "run_session copies get srt csv sels s1")
  from Cons.IH[OF c] q have os: "outs = map (\<lambda>sel. Inr (view srt sel df)) sels"
    and c2: "caches df s2" and n2: "sels \<noteq> [] \<longrightarrow> cache s2 \<noteq> None" by simp_all
  have n3: "cache s2 \<noteq> None"
  proof (cases sels)
    case Nil
    with q n show ?thesis by simp
  next
    case (Cons x xs)
    with n2 show ?thesis by simp
  qed
  show ?case by (simp add: r q o os c2 n3)
qed


lemma caches_new_session: "caches df new_session"
  by (simp add: caches_def new_session_def)

lemma caches_cached_table: "caches df s \<Longrightarrow> cache s \<noteq> None \<Longrightarrow> cached_table s = Some df"
  by (auto simp: caches_def cached_table_def frame_def)

text \<open>
  C10. In a session that starts with an empty cache and whose load succeeds with the
  table \<open>df\<close>, every run shows what its analysis gives on \<open>df\<close>, whatever ran before it;
  after any runs the cached table is \<open>df\<close>, and so it is after one more run, which again
  shows what its analysis gives on \<open>df\<close>. This holds whether the cache hands out copies
  or the stored frame itself: the only statement that assigns into the loaded frame
  writes the \<open>Date\<close> column back with the values it has, and the Cold War branch fills
  and recodes \<open>Country\<close> in the frame that \<open>dropna\<close> built.
\<close>

theorem cached_table_unchanged_by_analyses:
  assumes "load_data get csv = Inr df"
  shows "fst (run_session copies get srt csv sels new_session)
           = map (\<lambda>sel. Inr (view srt sel df)) sels \<and>
         (sels \<noteq> [] \<longrightarrow>
            cached_table (snd (run_session copies get srt csv sels new_session)) = Some df) \<and>
         fst (run_script copies get srt csv sel
                (snd (run_session copies get srt csv sels new_session)))
           = Inr (view srt sel df) \<and>
         cached_table (snd (run_script copies get srt csv sel
                (snd (run_session copies get srt csv sels new_session)))) = Some df"
proof -
  note s = run_session_ok[OF assms caches_new_session, of copies srt sels]
  note c = s[THEN conjunct2, THEN conjunct1]
  note r = run_script_ok[OF assms c, of copies srt sel]
  have a: "sels \<noteq> [] \<longrightarrow>
            cached_table (snd (run_session copies get srt csv sels new_session)) = Some df"
    using c s[THEN conjunct2, THEN conjunct2] by (simp add: caches_cached_table)
  have b: "cached_table (snd (run_script copies get srt csv sel
                (snd (run_session copies get srt csv sels new_session)))) = Some df"
    using r by (simp add: caches_cached_table)
  show ?thesis by (intro conjI s[THEN conjunct1] a r[THEN conjunct1] b)
qed

theorem cached_table_unchanged_by_analyses_witness:
  "load_data sample_countries cold_war_csv
     = Inr (projr (load_data sample_countries cold_war_csv)) \<and>
   fst (run_session True sample_countries sort_values_desc cold_war_csv
          [Cold_War_Space_Race] new_session)
     = [Inr [Write ''### Cold War Space Race: USA vs USSR'',
             Show_Chart (Pie [((1957, ''USSR''), 1), ((1958, ''USA''), 1)])]] \<and>
   fst (run_script True sample_countries sort_values_desc cold_war_csv Launches_by_Country
          (snd (run_session True sample_countries sort_values_desc cold_war_csv
                  [Cold_War_Space_Race] new_session)))
     = Inr [Write ''### Launches by Country (Choropleth Map)'',
            Show_Chart (Choropleth [((''Kazakhstan'', ''KAZ''), 2), ((''USA'', ''USA''), 1)])] \<and>
   cached_table (snd (run_session False sample_countries sort_values_desc cold_war_csv
                        [Cold_War_Space_Race] new_session))
     = Some (projr (load_data sample_countries cold_war_csv)) \<and>
   last (heap (snd (run_session False sample_countries sort_values_desc cold_war_csv
                        [Cold_War_Space_Race] new_session)))
     \<noteq> projr (load_data sample_countries cold_war_csv)"
proof -
  have h: "load_data sample_countries cold_war_csv
     = Inr (projr (load_data sample_countries cold_war_csv))" by code_simp
  note t = cached_table_unchanged_by_analyses[OF h, of True sort_values_desc
      "[Cold_War_Space_Race]" Launches_by_Country]
  note f = cached_table_unchanged_by_analyses[OF h, of False sort_values_desc
      "[Cold_War_Space_Race]" Launches_by_Country]
  have v1: "view sort_values_desc Cold_War_Space_Race (projr (load_data sample_countries cold_war_csv))
      = [Write ''### Cold War Space Race: USA vs USSR'',
         Show_Chart (Pie [((1957, ''USSR''), 1), ((1958, ''USA''), 1)])]" by code_simp
  have v2: "view sort_values_desc Launches_by_Country (projr (load_data sample_countries cold_war_csv))
      = [Write ''### Launches by Country (Choropleth Map)'',
         Show_Chart (Choropleth [((''Kazakhstan'', ''KAZ''), 2), ((''USA'', ''USA''), 1)])]"
    by code_simp
  have a: "fst (run_session True sample_countries sort_values_desc cold_war_csv
          [Cold_War_Space_Race] new_session)
     = [Inr [Write ''### Cold War Space Race: USA vs USSR'',
             Show_Chart (Pie [((1957, ''USSR''), 1), ((1958, ''USA''), 1)])]]"
    using t[THEN conjunct1] v1 by simp
  have b: "fst (run_script True sample_countries sort_values_desc cold_war_csv Launches_by_Country
          (snd (run_session True sample_countries sort_values_desc cold_war_csv
                  [Cold_War_Space_Race] new_session)))
     = Inr [Write ''### Launches by Country (Choropleth Map)'',
            Show_Chart (Choropleth [((''Kazakhstan'', ''KAZ''), 2), ((''USA'', ''USA''), 1)])]"
    using t[THEN conjunct2, THEN conjunct2, THEN conjunct1] v2 by simp
  have c: "cached_table (snd (run_session False sample_countries sort_values_desc cold_war_csv
                        [Cold_War_Space_Race] new_session))
     = Some (projr (load_data sample_countries cold_war_csv))"
    using f[THEN conjunct2, THEN conjunct1] by simp
  have d: "last (heap (snd (run_session False sample_countries sort_values_desc cold_war_csv
                        [Cold_War_Space_Race] new_session)))
     \<noteq> projr (load_data sample_countries cold_war_csv)" by code_simp
  show ?thesis by (intro conjI h a b c d)
qed

end
